theory Spec2Isabelle
  imports Main "HOL-Library.AList" "HOL-Library.Multiset"
begin

section \<open>The payment ledger of the Kid Tok backend server\<close>

text \<open>
  The server keeps two JavaScript \<^verbatim>\<open>Map\<close>s, \<^verbatim>\<open>transactions\<close> (keyed by the payment
  intent id) and \<^verbatim>\<open>users\<close> (keyed by the user id), and four request handlers read and
  write them: \<^verbatim>\<open>POST /api/create-payment\<close>, \<^verbatim>\<open>POST /api/confirm-payment\<close>,
  \<^verbatim>\<open>GET /api/user/:userId\<close> and \<^verbatim>\<open>GET /api/admin/transactions\<close>.

  Conventions of the embedding.
  \<^item> A handler is a function from the ledger to the new ledger and the reply. Both
    \<^verbatim>\<open>POST\<close> handlers \<^verbatim>\<open>await\<close> the payment gateway before their first access to the
    maps and never suspend afterwards, so each handler's reads and writes of the ledger
    are one atomic step taken when the gateway has answered.
  \<^item> The gateway (Stripe) is a parameter of the handler: a function from what the handler
    sends to what the gateway answers, a rejected promise being \<open>Inl\<close>.
  \<^item> \<^verbatim>\<open>new Date()\<close> is a parameter too: each call site of a handler is evaluated at most
    once per request, so the clock is a function from call sites to the instant read
    there. An instant is the number of milliseconds of the \<^verbatim>\<open>Date\<close>;
    \<^verbatim>\<open>toISOString\<close> followed by \<^verbatim>\<open>new Date(...)\<close> gives the same instant back.
  \<^item> A request field is a \<open>string option\<close>, \<open>None\<close> being \<^verbatim>\<open>undefined\<close> (the field is
    absent from the body). A \<open>char\<close> stands for one code unit of the JavaScript string,
    below 256.
  \<^item> JavaScript numbers hold the counters and amounts; they are integers here (exact
    below \<open>2 ^ 53\<close>).
  \<^item> Field names carry the prefix of their record (\<open>t_\<close> transaction, \<open>u_\<close> user, \<open>pi_\<close>
    payment intent, \<open>ip_\<close> intent parameters, \<open>ge_\<close> gateway error, \<open>cq_\<close> and \<open>fq_\<close> the
    two request bodies, \<open>cr_\<close>, \<open>fr_\<close>, \<open>ur_\<close>, \<open>ar_\<close> the four replies, \<open>e_\<close> an error
    reply), since record fields share one name space.
\<close>

subsection \<open>Data\<close>

type_synonym instant = int

record transaction =
  t_paymentIntentId :: string
  t_userId :: string
  t_userName :: string
  t_userEmail :: string
  t_amount :: int
  t_currency :: string
  t_status :: string
  t_createdAt :: instant
  t_deviceInfo :: "string option"
  t_appVersion :: "string option"
  t_purchaseType :: string
  t_completedAt :: "instant option"

text \<open>
  A user object is created without \<^verbatim>\<open>lastSuccessfulPurchase\<close> and \<^verbatim>\<open>isPremium\<close>; these two
  properties are \<^verbatim>\<open>undefined\<close> (\<open>None\<close>) until a confirmation sets them.
\<close>

record user =
  u_userId :: string
  u_userName :: string
  u_userEmail :: string
  u_firstSeen :: instant
  u_lastPurchaseAttempt :: instant
  u_totalAttempts :: int
  u_successfulPurchases :: int
  u_totalSpent :: int
  u_lastSuccessfulPurchase :: "instant option"
  u_isPremium :: "bool option"

text \<open>
  A JavaScript \<^verbatim>\<open>Map\<close> iterates in insertion order and \<^verbatim>\<open>set\<close> on a present key keeps
  the key's place: the transactions are an association list written with
  \<^const>\<open>AList.update\<close> and read with \<^const>\<open>map_of\<close>. The order of \<^verbatim>\<open>users\<close> is never
  observed by the four handlers, so it is a map.
\<close>

record ledger =
  transactions :: "(string \<times> transaction) list"
  users :: "string \<rightharpoonup> user"

definition empty_ledger :: ledger where
  "empty_ledger = \<lparr>transactions = [], users = Map.empty\<rparr>"

subsection \<open>The gateway and the clock\<close>

record payment_intent =
  pi_id :: string
  pi_client_secret :: string
  pi_description :: string
  pi_status :: string
  pi_amount :: int

record gateway_error =
  ge_message :: string
  ge_type :: "string option"

record intent_params =
  ip_amount :: int
  ip_currency :: string
  ip_automatic_payment_methods :: bool
  ip_user_id :: string
  ip_user_name :: string
  ip_user_email :: string
  ip_purchase_type :: string
  ip_app_name :: string
  ip_app_version :: string
  ip_device_info :: string
  ip_purchase_timestamp :: instant
  ip_amount_usd :: string
  ip_receipt_email :: string
  ip_description :: string

type_synonym create_gateway = "intent_params \<Rightarrow> gateway_error + payment_intent"
type_synonym retrieve_gateway = "string \<Rightarrow> gateway_error + payment_intent"

datatype clock_site =
  At_purchase_timestamp | At_createdAt | At_existing_lastPurchaseAttempt | At_firstSeen
  | At_new_lastPurchaseAttempt | At_reply_timestamp | At_completedAt
  | At_lastSuccessfulPurchase

type_synonym clock = "clock_site \<Rightarrow> instant"

subsection \<open>Requests and replies\<close>

record create_request =
  cq_userEmail :: "string option"
  cq_userName :: "string option"
  cq_userId :: "string option"
  cq_deviceInfo :: "string option"
  cq_appVersion :: "string option"
  cq_purchaseType :: "string option"

record confirm_request =
  fq_paymentIntentId :: "string option"
  fq_userId :: "string option"

text \<open>An error reply: the HTTP status and the \<^verbatim>\<open>error\<close>, \<^verbatim>\<open>type\<close> and \<^verbatim>\<open>status\<close> of its body.\<close>

record error_reply =
  e_code :: nat
  e_error :: string
  e_type :: "string option"
  e_status :: "string option"

record create_reply =
  cr_clientSecret :: string
  cr_paymentIntentId :: string
  cr_amount :: int
  cr_currency :: string
  cr_userId :: string
  cr_userName :: string
  cr_userEmail :: string
  cr_description :: string
  cr_receiptEmail :: string
  cr_timestamp :: instant

record confirm_reply =
  fr_success :: bool
  fr_message :: string
  fr_paymentIntentId :: string
  fr_amount :: int
  fr_status :: string

record user_reply =
  ur_user :: user
  ur_transactions :: "transaction list"
  ur_totalTransactions :: nat
  ur_successfulTransactions :: nat
  ur_totalSpent :: int
  ur_isPremium :: bool

record admin_reply =
  ar_transactions :: "transaction list"
  ar_totalTransactions :: nat
  ar_completedTransactions :: nat
  ar_pendingTransactions :: nat
  ar_totalRevenue :: int
  ar_uniqueUsers :: nat

subsection \<open>JavaScript operators\<close>

text \<open>\<^verbatim>\<open>!x\<close> on a request field: \<^verbatim>\<open>undefined\<close> and the empty string are falsy.\<close>

definition falsy :: "string option \<Rightarrow> bool" where
  "falsy x = (case x of None \<Rightarrow> True | Some s \<Rightarrow> s = [])"

text \<open>\<^verbatim>\<open>x || d\<close> on an optional string.\<close>

definition or_else :: "string option \<Rightarrow> string \<Rightarrow> string" where
  "or_else x d = (case x of None \<Rightarrow> d | Some s \<Rightarrow> if s = [] then d else s)"

text \<open>
  The regular expressions the server needs: character classes, sequence and repetition.
  \<^verbatim>\<open>test\<close> of a pattern anchored by \<^verbatim>\<open>^\<close> and \<^verbatim>\<open>$\<close> (no flags) holds when the whole string
  is in the pattern's language, which the derivatives of the pattern decide.
\<close>

datatype regex =
  Never | Eps | Class "char \<Rightarrow> bool" | Alt regex regex | Seq regex regex | Star regex

definition Plus :: "regex \<Rightarrow> regex" where
  "Plus r = Seq r (Star r)"

fun nullable :: "regex \<Rightarrow> bool" where
  "nullable Never = False"
| "nullable Eps = True"
| "nullable (Class p) = False"
| "nullable (Alt r s) = (nullable r \<or> nullable s)"
| "nullable (Seq r s) = (nullable r \<and> nullable s)"
| "nullable (Star r) = True"

fun deriv :: "char \<Rightarrow> regex \<Rightarrow> regex" where
  "deriv c Never = Never"
| "deriv c Eps = Never"
| "deriv c (Class p) = (if p c then Eps else Never)"
| "deriv c (Alt r s) = Alt (deriv c r) (deriv c s)"
| "deriv c (Seq r s) =
     (if nullable r then Alt (Seq (deriv c r) s) (deriv c s) else Seq (deriv c r) s)"
| "deriv c (Star r) = Seq (deriv c r) (Star r)"

fun regex_test :: "regex \<Rightarrow> string \<Rightarrow> bool" where
  "regex_test r [] = nullable r"
| "regex_test r (c # cs) = regex_test (deriv c r) cs"

text \<open>
  \<^verbatim>\<open>\s\<close> among the code units below 256: tab, line feed, vertical tab, form feed,
  carriage return, space and the no-break space.
\<close>

definition js_space :: "char \<Rightarrow> bool" where
  "js_space c = (c \<in> set [CHR 0x09, CHR 0x0A, CHR 0x0B, CHR 0x0C, CHR 0x0D, CHR 0x20, CHR 0xA0])"

text \<open>\<^verbatim>\<open>[^\s@]\<close>\<close>

definition not_space_at :: "char \<Rightarrow> bool" where
  "not_space_at c = (\<not> js_space c \<and> c \<noteq> CHR ''@'')"

text \<open>\<^verbatim>\<open>/^[^\s@]+@[^\s@]+\.[^\s@]+$/\<close>\<close>

definition emailRegex :: regex where
  "emailRegex =
     Seq (Plus (Class not_space_at))
       (Seq (Class (\<lambda>c. c = CHR ''@''))
         (Seq (Plus (Class not_space_at))
           (Seq (Class (\<lambda>c. c = CHR ''.'')) (Plus (Class not_space_at)))))"

text \<open>
  What a pattern accepts: the language of a regular expression, in the textbook sense.
  \<open>star A\<close> holds the concatenations of finitely many strings of \<open>A\<close>.
\<close>

inductive_set star :: "string set \<Rightarrow> string set" for A :: "string set" where
  star_empty: "[] \<in> star A"
| star_more: "u \<in> A \<Longrightarrow> v \<in> star A \<Longrightarrow> u @ v \<in> star A"

fun lang :: "regex \<Rightarrow> string set" where
  "lang Never = {}"
| "lang Eps = {[]}"
| "lang (Class p) = {[c] | c. p c}"
| "lang (Alt r s) = lang r \<union> lang s"
| "lang (Seq r s) = {u @ v | u v. u \<in> lang r \<and> v \<in> lang s}"
| "lang (Star r) = star (lang r)"

text \<open>
  The specification's words for the email check, a basic \<^verbatim>\<open>local@domain.tld\<close> shape, read
  as: three parts, none empty and none holding white space or an \<^verbatim>\<open>@\<close>, with an \<^verbatim>\<open>@\<close>
  after the first and a dot after the second. This definition follows the specification,
  not the source; \<open>emailRegex_shape\<close> below compares it with the source's pattern.
\<close>

definition address_part :: "string \<Rightarrow> bool" where
  "address_part w = (w \<noteq> [] \<and> (\<forall>c \<in> set w. \<not> js_space c \<and> c \<noteq> CHR ''@''))"

definition email_shape :: "string \<Rightarrow> bool" where
  "email_shape s =
     (\<exists>local domain tld.
        s = local @ ''@'' @ domain @ ''.'' @ tld
        \<and> address_part local \<and> address_part domain \<and> address_part tld)"

subsection \<open>create-payment\<close>

definition bad_request :: "string \<Rightarrow> error_reply" where
  "bad_request msg = \<lparr>e_code = 400, e_error = msg, e_type = None, e_status = None\<rparr>"

text \<open>The price is fixed: \<^verbatim>\<open>const amount = 999\<close> (cents) and \<^verbatim>\<open>const currency = 'usd'\<close>.\<close>

definition amount :: int where
  "amount = 999"

definition currency :: string where
  "currency = ''usd''"

text \<open>The destructuring default \<^verbatim>\<open>purchaseType = 'unlimited_video_selection'\<close>.\<close>

definition purchaseType :: "create_request \<Rightarrow> string" where
  "purchaseType req =
     (case cq_purchaseType req of None \<Rightarrow> ''unlimited_video_selection'' | Some p \<Rightarrow> p)"

text \<open>
  The object passed to \<^verbatim>\<open>stripe.paymentIntents.create\<close>. \<^verbatim>\<open>(amount / 100).toString()\<close> is
  the constant \<^verbatim>\<open>"9.99"\<close>. The three required fields are read with \<^const>\<open>the\<close>: the handler
  gets here only when none of them is falsy.
\<close>

definition intent_request :: "clock \<Rightarrow> create_request \<Rightarrow> intent_params" where
  "intent_request now req =
     \<lparr>ip_amount = amount, ip_currency = currency,
      ip_automatic_payment_methods = True,
      ip_user_id = the (cq_userId req),
      ip_user_name = the (cq_userName req),
      ip_user_email = the (cq_userEmail req),
      ip_purchase_type = purchaseType req,
      ip_app_name = ''Kid Tok Premium'',
      ip_app_version = or_else (cq_appVersion req) ''unknown'',
      ip_device_info = or_else (cq_deviceInfo req) ''unknown'',
      ip_purchase_timestamp = now At_purchase_timestamp,
      ip_amount_usd = ''9.99'',
      ip_receipt_email = the (cq_userEmail req),
      ip_description =
        ''Kid Tok Premium - Unlimited Video Access for '' @ the (cq_userName req)\<rparr>"

text \<open>The object \<^verbatim>\<open>transactionData\<close>; it has no \<^verbatim>\<open>completedAt\<close> yet.\<close>

definition transactionData :: "clock \<Rightarrow> create_request \<Rightarrow> payment_intent \<Rightarrow> transaction" where
  "transactionData now req paymentIntent =
     \<lparr>t_paymentIntentId = pi_id paymentIntent,
      t_userId = the (cq_userId req),
      t_userName = the (cq_userName req),
      t_userEmail = the (cq_userEmail req),
      t_amount = amount,
      t_currency = currency,
      t_status = ''pending'',
      t_createdAt = now At_createdAt,
      t_deviceInfo = cq_deviceInfo req,
      t_appVersion = cq_appVersion req,
      t_purchaseType = purchaseType req,
      t_completedAt = None\<rparr>"

text \<open>
  The \<^verbatim>\<open>if (users.has(userId)) ... else ...\<close> of the handler. \<^verbatim>\<open>(totalAttempts || 0) + 1\<close>: the
  number 0 is falsy.
\<close>

definition upsert_user :: "clock \<Rightarrow> create_request \<Rightarrow> (string \<rightharpoonup> user) \<Rightarrow> (string \<rightharpoonup> user)" where
  "upsert_user now req us =
     (let userId = the (cq_userId req) in
      case us userId of
        Some existingUser \<Rightarrow>
          us(userId \<mapsto>
            existingUser
              \<lparr>u_lastPurchaseAttempt := now At_existing_lastPurchaseAttempt,
               u_totalAttempts :=
                 (if u_totalAttempts existingUser = 0 then 0
                  else u_totalAttempts existingUser) + 1\<rparr>)
      | None \<Rightarrow>
          us(userId \<mapsto>
            \<lparr>u_userId = userId,
             u_userName = the (cq_userName req),
             u_userEmail = the (cq_userEmail req),
             u_firstSeen = now At_firstSeen,
             u_lastPurchaseAttempt = now At_new_lastPurchaseAttempt,
             u_totalAttempts = 1,
             u_successfulPurchases = 0,
             u_totalSpent = 0,
             u_lastSuccessfulPurchase = None,
             u_isPremium = None\<rparr>))"

definition createPayment ::
  "create_gateway \<Rightarrow> clock \<Rightarrow> create_request \<Rightarrow> ledger \<Rightarrow> ledger \<times> (error_reply + create_reply)"
where
  "createPayment create now req st =
    (if falsy (cq_userEmail req) \<or> falsy (cq_userName req) \<or> falsy (cq_userId req)
     then (st, Inl (bad_request
       ''Missing required user information: userEmail, userName, and userId are required''))
     else if \<not> regex_test emailRegex (the (cq_userEmail req))
     then (st, Inl (bad_request ''Invalid email format''))
     else
       case create (intent_request now req) of
         Inl err \<Rightarrow>
           (st, Inl \<lparr>e_code = 400, e_error = ge_message err,
                     e_type = Some (or_else (ge_type err) ''payment_creation_error''),
                     e_status = None\<rparr>)
       | Inr paymentIntent \<Rightarrow>
           (\<lparr>transactions =
                AList.update (pi_id paymentIntent) (transactionData now req paymentIntent)
                  (transactions st),
             users = upsert_user now req (users st)\<rparr>,
            Inr \<lparr>cr_clientSecret = pi_client_secret paymentIntent,
                 cr_paymentIntentId = pi_id paymentIntent,
                 cr_amount = amount,
                 cr_currency = currency,
                 cr_userId = the (cq_userId req),
                 cr_userName = the (cq_userName req),
                 cr_userEmail = the (cq_userEmail req),
                 cr_description = pi_description paymentIntent,
                 cr_receiptEmail = the (cq_userEmail req),
                 cr_timestamp = now At_reply_timestamp\<rparr>))"

subsection \<open>confirm-payment\<close>

text \<open>The \<^verbatim>\<open>if (transactions.has(paymentIntentId)) ...\<close> of the handler.\<close>

definition complete_transaction ::
  "clock \<Rightarrow> string \<Rightarrow> (string \<times> transaction) list \<Rightarrow> (string \<times> transaction) list"
where
  "complete_transaction now paymentIntentId txs =
     (case map_of txs paymentIntentId of
        Some transaction \<Rightarrow>
          AList.update paymentIntentId
            (transaction\<lparr>t_status := ''completed'',
                         t_completedAt := Some (now At_completedAt)\<rparr>)
            txs
      | None \<Rightarrow> txs)"

text \<open>The \<^verbatim>\<open>if (users.has(userId)) ...\<close> of the handler; \<open>paid\<close> is \<^verbatim>\<open>paymentIntent.amount\<close>.\<close>

definition credit_user :: "clock \<Rightarrow> string \<Rightarrow> int \<Rightarrow> (string \<rightharpoonup> user) \<Rightarrow> (string \<rightharpoonup> user)" where
  "credit_user now userId paid us =
     (case us userId of
        Some user \<Rightarrow>
          us(userId \<mapsto>
            user\<lparr>u_successfulPurchases := u_successfulPurchases user + 1,
                 u_totalSpent := u_totalSpent user + paid,
                 u_lastSuccessfulPurchase := Some (now At_lastSuccessfulPurchase),
                 u_isPremium := Some True\<rparr>)
      | None \<Rightarrow> us)"

definition confirmPayment ::
  "retrieve_gateway \<Rightarrow> clock \<Rightarrow> confirm_request \<Rightarrow> ledger \<Rightarrow> ledger \<times> (error_reply + confirm_reply)"
where
  "confirmPayment retrieve now req st =
    (if falsy (fq_paymentIntentId req) \<or> falsy (fq_userId req)
     then (st, Inl (bad_request ''Missing paymentIntentId or userId''))
     else
       let paymentIntentId = the (fq_paymentIntentId req);
           userId = the (fq_userId req)
       in case retrieve paymentIntentId of
            Inl err \<Rightarrow>
              (st, Inl \<lparr>e_code = 500, e_error = ge_message err,
                        e_type = Some ''payment_confirmation_error'', e_status = None\<rparr>)
          | Inr paymentIntent \<Rightarrow>
              if pi_status paymentIntent = ''succeeded'' then
                (\<lparr>transactions = complete_transaction now paymentIntentId (transactions st),
                  users = credit_user now userId (pi_amount paymentIntent) (users st)\<rparr>,
                 Inr \<lparr>fr_success = True,
                      fr_message = ''Payment confirmed successfully'',
                      fr_paymentIntentId = paymentIntentId,
                      fr_amount = pi_amount paymentIntent,
                      fr_status = pi_status paymentIntent\<rparr>)
              else
                (st, Inl \<lparr>e_code = 400, e_error = ''Payment not completed'',
                          e_type = None, e_status = Some (pi_status paymentIntent)\<rparr>))"

subsection \<open>The two queries\<close>

text \<open>
  \<^verbatim>\<open>Array.prototype.sort\<close> is stable: elements the comparator calls equal keep their order.
  Insertion from the right, before the first element that does not have to precede the
  new one, computes that arrangement.
\<close>

fun insert_sorted :: "('a \<Rightarrow> 'a \<Rightarrow> int) \<Rightarrow> 'a \<Rightarrow> 'a list \<Rightarrow> 'a list" where
  "insert_sorted cmp x [] = [x]"
| "insert_sorted cmp x (y # ys) =
     (if cmp x y \<le> 0 then x # y # ys else y # insert_sorted cmp x ys)"

definition js_sort :: "('a \<Rightarrow> 'a \<Rightarrow> int) \<Rightarrow> 'a list \<Rightarrow> 'a list" where
  "js_sort cmp xs = foldr (insert_sorted cmp) xs []"

text \<open>\<^verbatim>\<open>(a, b) => new Date(b.createdAt) - new Date(a.createdAt)\<close>\<close>

definition by_date_descending :: "transaction \<Rightarrow> transaction \<Rightarrow> int" where
  "by_date_descending a b = t_createdAt b - t_createdAt a"

text \<open>\<^verbatim>\<open>Array.from(transactions.values())\<close>\<close>

definition transaction_values :: "ledger \<Rightarrow> transaction list" where
  "transaction_values st = map snd (transactions st)"

definition getUser :: "string \<Rightarrow> ledger \<Rightarrow> error_reply + user_reply" where
  "getUser userId st =
    (case users st userId of
       None \<Rightarrow>
         Inl \<lparr>e_code = 404, e_error = ''User not found'', e_type = None, e_status = None\<rparr>
     | Some userData \<Rightarrow>
         let userTransactions =
               js_sort by_date_descending
                 (filter (\<lambda>t. t_userId t = userId) (transaction_values st))
         in Inr \<lparr>ur_user = userData,
                 ur_transactions = userTransactions,
                 ur_totalTransactions = length userTransactions,
                 ur_successfulTransactions =
                   length (filter (\<lambda>t. t_status t = ''completed'') userTransactions),
                 ur_totalSpent = u_totalSpent userData,
                 ur_isPremium = (case u_isPremium userData of None \<Rightarrow> False | Some b \<Rightarrow> b)\<rparr>)"

definition listAllTransactions :: "ledger \<Rightarrow> admin_reply" where
  "listAllTransactions st =
    (let allTransactions = js_sort by_date_descending (transaction_values st)
     in \<lparr>ar_transactions = allTransactions,
         ar_totalTransactions = length allTransactions,
         ar_completedTransactions =
           length (filter (\<lambda>t. t_status t = ''completed'') allTransactions),
         ar_pendingTransactions =
           length (filter (\<lambda>t. t_status t = ''pending'') allTransactions),
         ar_totalRevenue =
           foldl (\<lambda>sum t. sum + t_amount t) 0
             (filter (\<lambda>t. t_status t = ''completed'') allTransactions),
         ar_uniqueUsers = length (remdups (map t_userId allTransactions))\<rparr>)"

subsection \<open>Runs of the server\<close>

text \<open>
  The two handlers that write the ledger, each with the gateway's behaviour and the clock
  of its request. A run applies them one after the other.
\<close>

datatype event =
  Create create_gateway clock create_request
  | Confirm retrieve_gateway clock confirm_request

fun apply_event :: "event \<Rightarrow> ledger \<Rightarrow> ledger" where
  "apply_event (Create create now req) st = fst (createPayment create now req st)"
| "apply_event (Confirm retrieve now req) st = fst (confirmPayment retrieve now req st)"

fun run :: "event list \<Rightarrow> ledger \<Rightarrow> ledger" where
  "run [] st = st"
| "run (e # es) st = run es (apply_event e st)"

text \<open>The event is a create-payment request of user \<open>uid\<close> that the server answers with 200.\<close>

fun successful_create_of :: "string \<Rightarrow> event \<Rightarrow> ledger \<Rightarrow> bool" where
  "successful_create_of uid (Create create now req) st =
     (cq_userId req = Some uid \<and> isl (snd (createPayment create now req st)) = False)"
| "successful_create_of uid (Confirm retrieve now req) st = False"

fun successful_creates :: "string \<Rightarrow> event list \<Rightarrow> ledger \<Rightarrow> nat" where
  "successful_creates uid [] st = 0"
| "successful_creates uid (e # es) st =
     (if successful_create_of uid e st then 1 else 0)
       + successful_creates uid es (apply_event e st)"

text \<open>
  The map \<open>us\<close> records \<open>n\<close> attempts of user \<open>uid\<close>: no record when there was none, and a
  record whose \<^verbatim>\<open>totalAttempts\<close> is \<open>n\<close> otherwise.
\<close>

definition recorded_attempts :: "(string \<rightharpoonup> user) \<Rightarrow> string \<Rightarrow> nat \<Rightarrow> bool" where
  "recorded_attempts us uid n =
     (case us uid of None \<Rightarrow> n = 0 | Some u \<Rightarrow> 0 < n \<and> u_totalAttempts u = int n)"

text \<open>
  The gateway assigns every payment intent an id of its own: the id a successful
  create-payment request stores is not yet a key of \<^verbatim>\<open>transactions\<close>.
\<close>

fun fresh_id :: "event \<Rightarrow> ledger \<Rightarrow> bool" where
  "fresh_id (Create create now req) st =
     (case snd (createPayment create now req st) of
        Inl err \<Rightarrow> True
      | Inr reply \<Rightarrow> map_of (transactions st) (cr_paymentIntentId reply) = None)"
| "fresh_id (Confirm retrieve now req) st = True"

definition valid_status :: "string \<Rightarrow> bool" where
  "valid_status s = (s = ''pending'' \<or> s = ''completed'')"

subsection \<open>Sample requests\<close>

text \<open>A gateway that creates the intent \<open>pid\<close>, and one that reports a status and an amount.\<close>

definition gateway_creates :: "string \<Rightarrow> create_gateway" where
  "gateway_creates pid params =
     Inr \<lparr>pi_id = pid, pi_client_secret = pid @ ''_secret'',
          pi_description = ip_description params,
          pi_status = ''requires_payment_method'', pi_amount = ip_amount params\<rparr>"

definition gateway_reports :: "string \<Rightarrow> int \<Rightarrow> retrieve_gateway" where
  "gateway_reports status paid pid =
     Inr \<lparr>pi_id = pid, pi_client_secret = pid @ ''_secret'', pi_description = [],
          pi_status = status, pi_amount = paid\<rparr>"

definition clock_at :: "instant \<Rightarrow> clock" where
  "clock_at t site = t"

definition create_body :: "string \<Rightarrow> string \<Rightarrow> string \<Rightarrow> create_request" where
  "create_body email name uid =
     \<lparr>cq_userEmail = Some email, cq_userName = Some name, cq_userId = Some uid,
      cq_deviceInfo = None, cq_appVersion = None, cq_purchaseType = None\<rparr>"

definition confirm_body :: "string \<Rightarrow> string \<Rightarrow> confirm_request" where
  "confirm_body pid uid = \<lparr>fq_paymentIntentId = Some pid, fq_userId = Some uid\<rparr>"

text \<open>The ledger after user \<open>u1\<close> created the payment \<open>pi_1\<close> at instant 100.\<close>

definition ledger_created :: ledger where
  "ledger_created =
     fst (createPayment (gateway_creates ''pi_1'') (clock_at 100)
            (create_body ''a@b.com'' ''A'' ''u1'') empty_ledger)"

text \<open>The same ledger after the payment was confirmed at instant 200.\<close>

definition ledger_confirmed :: ledger where
  "ledger_confirmed =
     fst (confirmPayment (gateway_reports ''succeeded'' 999) (clock_at 200)
            (confirm_body ''pi_1'' ''u1'') ledger_created)"


text \<open>The ledger \<open>ledger_created\<close> after a second user, \<open>u2\<close>, created the payment \<open>pi_2\<close>.\<close>

definition ledger_two_users :: ledger where
  "ledger_two_users =
     fst (createPayment (gateway_creates ''pi_2'') (clock_at 150)
            (create_body ''c@d.org'' ''B'' ''u2'') ledger_created)"

text \<open>The ledger \<open>ledger_two_users\<close> after \<open>u1\<close> created a second payment, \<open>pi_3\<close>.\<close>

definition ledger_three_payments :: ledger where
  "ledger_three_payments =
     fst (createPayment (gateway_creates ''pi_3'') (clock_at 170)
            (create_body ''a@b.com'' ''A'' ''u1'') ledger_two_users)"

text \<open>
  The ledger \<open>ledger_three_payments\<close> after \<open>u2\<close> confirmed \<open>pi_2\<close> at instant 200: one
  completed transaction between two pending ones.
\<close>

definition ledger_mixed :: ledger where
  "ledger_mixed =
     fst (confirmPayment (gateway_reports ''succeeded'' 999) (clock_at 200)
            (confirm_body ''pi_2'' ''u2'') ledger_three_payments)"

text \<open>The three requests that lead there, as a run.\<close>

definition three_creates :: "event list" where
  "three_creates =
     [Create (gateway_creates ''pi_1'') (clock_at 100) (create_body ''a@b.com'' ''A'' ''u1''),
      Create (gateway_creates ''pi_2'') (clock_at 150) (create_body ''c@d.org'' ''B'' ''u2''),
      Create (gateway_creates ''pi_3'') (clock_at 170) (create_body ''a@b.com'' ''A'' ''u1'')]"

text \<open>The two requests that lead to \<open>ledger_confirmed\<close>, as a run.\<close>

definition create_and_confirm :: "event list" where
  "create_and_confirm =
     [Create (gateway_creates ''pi_1'') (clock_at 100) (create_body ''a@b.com'' ''A'' ''u1''),
      Confirm (gateway_reports ''succeeded'' 999) (clock_at 200) (confirm_body ''pi_1'' ''u1'')]"

section \<open>Properties\<close>

subsection \<open>Evaluation of the sample requests\<close>

lemmas sample_defs = gateway_creates_def gateway_reports_def clock_at_def create_body_def
  confirm_body_def empty_ledger_def falsy_def or_else_def bad_request_def amount_def
  currency_def purchaseType_def intent_request_def transactionData_def upsert_user_def
  complete_transaction_def credit_user_def

lemmas regex_defs = emailRegex_def Plus_def not_space_at_def js_space_def

lemma ledger_created_eq:
  "ledger_created =
     \<lparr>transactions =
        [(''pi_1'',
          \<lparr>t_paymentIntentId = ''pi_1'', t_userId = ''u1'', t_userName = ''A'',
           t_userEmail = ''a@b.com'', t_amount = 999, t_currency = ''usd'',
           t_status = ''pending'', t_createdAt = 100, t_deviceInfo = None,
           t_appVersion = None, t_purchaseType = ''unlimited_video_selection'',
           t_completedAt = None\<rparr>)],
      users =
        [''u1'' \<mapsto>
          \<lparr>u_userId = ''u1'', u_userName = ''A'', u_userEmail = ''a@b.com'',
           u_firstSeen = 100, u_lastPurchaseAttempt = 100, u_totalAttempts = 1,
           u_successfulPurchases = 0, u_totalSpent = 0,
           u_lastSuccessfulPurchase = None, u_isPremium = None\<rparr>]\<rparr>"
  unfolding ledger_created_def createPayment_def
  by (simp add: sample_defs regex_defs Let_def)

lemma ledger_confirmed_eq:
  "ledger_confirmed =
     \<lparr>transactions =
        [(''pi_1'',
          \<lparr>t_paymentIntentId = ''pi_1'', t_userId = ''u1'', t_userName = ''A'',
           t_userEmail = ''a@b.com'', t_amount = 999, t_currency = ''usd'',
           t_status = ''completed'', t_createdAt = 100, t_deviceInfo = None,
           t_appVersion = None, t_purchaseType = ''unlimited_video_selection'',
           t_completedAt = Some 200\<rparr>)],
      users =
        [''u1'' \<mapsto>
          \<lparr>u_userId = ''u1'', u_userName = ''A'', u_userEmail = ''a@b.com'',
           u_firstSeen = 100, u_lastPurchaseAttempt = 100, u_totalAttempts = 1,
           u_successfulPurchases = 1, u_totalSpent = 999,
           u_lastSuccessfulPurchase = Some 200, u_isPremium = Some True\<rparr>]\<rparr>"
  unfolding ledger_confirmed_def confirmPayment_def
  by (simp add: sample_defs ledger_created_eq Let_def)


lemma ledger_two_users_eq:
  "ledger_two_users =
     \<lparr>transactions =
        [(''pi_1'',
          \<lparr>t_paymentIntentId = ''pi_1'', t_userId = ''u1'', t_userName = ''A'',
           t_userEmail = ''a@b.com'', t_amount = 999, t_currency = ''usd'',
           t_status = ''pending'', t_createdAt = 100, t_deviceInfo = None,
           t_appVersion = None, t_purchaseType = ''unlimited_video_selection'',
           t_completedAt = None\<rparr>),
         (''pi_2'',
          \<lparr>t_paymentIntentId = ''pi_2'', t_userId = ''u2'', t_userName = ''B'',
           t_userEmail = ''c@d.org'', t_amount = 999, t_currency = ''usd'',
           t_status = ''pending'', t_createdAt = 150, t_deviceInfo = None,
           t_appVersion = None, t_purchaseType = ''unlimited_video_selection'',
           t_completedAt = None\<rparr>)],
      users =
        [''u1'' \<mapsto>
          \<lparr>u_userId = ''u1'', u_userName = ''A'', u_userEmail = ''a@b.com'',
           u_firstSeen = 100, u_lastPurchaseAttempt = 100, u_totalAttempts = 1,
           u_successfulPurchases = 0, u_totalSpent = 0,
           u_lastSuccessfulPurchase = None, u_isPremium = None\<rparr>,
         ''u2'' \<mapsto>
          \<lparr>u_userId = ''u2'', u_userName = ''B'', u_userEmail = ''c@d.org'',
           u_firstSeen = 150, u_lastPurchaseAttempt = 150, u_totalAttempts = 1,
           u_successfulPurchases = 0, u_totalSpent = 0,
           u_lastSuccessfulPurchase = None, u_isPremium = None\<rparr>]\<rparr>"
  unfolding ledger_two_users_def createPayment_def
  by (simp add: sample_defs regex_defs ledger_created_eq Let_def)

lemma sample_created:
  "createPayment (gateway_creates ''pi_1'') (clock_at 100)
     (create_body ''a@b.com'' ''A'' ''u1'') empty_ledger =
   (ledger_created,
    Inr \<lparr>cr_clientSecret = ''pi_1_secret'', cr_paymentIntentId = ''pi_1'', cr_amount = 999,
         cr_currency = ''usd'', cr_userId = ''u1'', cr_userName = ''A'',
         cr_userEmail = ''a@b.com'',
         cr_description = ''Kid Tok Premium - Unlimited Video Access for A'',
         cr_receiptEmail = ''a@b.com'', cr_timestamp = 100\<rparr>)"
proof (rule prod_eqI)
  show "fst (createPayment (gateway_creates ''pi_1'') (clock_at 100)
     (create_body ''a@b.com'' ''A'' ''u1'') empty_ledger) =
     fst (ledger_created,
    Inr \<lparr>cr_clientSecret = ''pi_1_secret'', cr_paymentIntentId = ''pi_1'', cr_amount = 999,
         cr_currency = ''usd'', cr_userId = ''u1'', cr_userName = ''A'',
         cr_userEmail = ''a@b.com'',
         cr_description = ''Kid Tok Premium - Unlimited Video Access for A'',
         cr_receiptEmail = ''a@b.com'', cr_timestamp = 100\<rparr>)"
    by (simp add: ledger_created_def)
  show "snd (createPayment (gateway_creates ''pi_1'') (clock_at 100)
     (create_body ''a@b.com'' ''A'' ''u1'') empty_ledger) =
     snd (ledger_created,
    Inr \<lparr>cr_clientSecret = ''pi_1_secret'', cr_paymentIntentId = ''pi_1'', cr_amount = 999,
         cr_currency = ''usd'', cr_userId = ''u1'', cr_userName = ''A'',
         cr_userEmail = ''a@b.com'',
         cr_description = ''Kid Tok Premium - Unlimited Video Access for A'',
         cr_receiptEmail = ''a@b.com'', cr_timestamp = 100\<rparr>)"
    by (simp add: createPayment_def sample_defs regex_defs)
qed

lemma sample_confirmed:
  "confirmPayment (gateway_reports ''succeeded'' 999) (clock_at 200)
     (confirm_body ''pi_1'' ''u1'') ledger_created =
   (ledger_confirmed,
    Inr \<lparr>fr_success = True, fr_message = ''Payment confirmed successfully'',
         fr_paymentIntentId = ''pi_1'', fr_amount = 999, fr_status = ''succeeded''\<rparr>)"
proof (rule prod_eqI)
  show "fst (confirmPayment (gateway_reports ''succeeded'' 999) (clock_at 200)
     (confirm_body ''pi_1'' ''u1'') ledger_created) =
   fst (ledger_confirmed,
    Inr \<lparr>fr_success = True, fr_message = ''Payment confirmed successfully'',
         fr_paymentIntentId = ''pi_1'', fr_amount = 999, fr_status = ''succeeded''\<rparr>)"
    by (simp add: ledger_confirmed_def)
  show "snd (confirmPayment (gateway_reports ''succeeded'' 999) (clock_at 200)
     (confirm_body ''pi_1'' ''u1'') ledger_created) =
   snd (ledger_confirmed,
    Inr \<lparr>fr_success = True, fr_message = ''Payment confirmed successfully'',
         fr_paymentIntentId = ''pi_1'', fr_amount = 999, fr_status = ''succeeded''\<rparr>)"
    by (simp add: confirmPayment_def Let_def confirm_body_def falsy_def gateway_reports_def)
qed

lemma ledger_three_payments_eq:
  "ledger_three_payments =
     \<lparr>transactions =
        [(''pi_1'',
          \<lparr>t_paymentIntentId = ''pi_1'', t_userId = ''u1'', t_userName = ''A'',
           t_userEmail = ''a@b.com'', t_amount = 999, t_currency = ''usd'',
           t_status = ''pending'', t_createdAt = 100, t_deviceInfo = None,
           t_appVersion = None, t_purchaseType = ''unlimited_video_selection'',
           t_completedAt = None\<rparr>),
         (''pi_2'',
          \<lparr>t_paymentIntentId = ''pi_2'', t_userId = ''u2'', t_userName = ''B'',
           t_userEmail = ''c@d.org'', t_amount = 999, t_currency = ''usd'',
           t_status = ''pending'', t_createdAt = 150, t_deviceInfo = None,
           t_appVersion = None, t_purchaseType = ''unlimited_video_selection'',
           t_completedAt = None\<rparr>),
         (''pi_3'',
          \<lparr>t_paymentIntentId = ''pi_3'', t_userId = ''u1'', t_userName = ''A'',
           t_userEmail = ''a@b.com'', t_amount = 999, t_currency = ''usd'',
           t_status = ''pending'', t_createdAt = 170, t_deviceInfo = None,
           t_appVersion = None, t_purchaseType = ''unlimited_video_selection'',
           t_completedAt = None\<rparr>)],
      users =
        [''u1'' \<mapsto>
          \<lparr>u_userId = ''u1'', u_userName = ''A'', u_userEmail = ''a@b.com'',
           u_firstSeen = 100, u_lastPurchaseAttempt = 170, u_totalAttempts = 2,
           u_successfulPurchases = 0, u_totalSpent = 0,
           u_lastSuccessfulPurchase = None, u_isPremium = None\<rparr>,
         ''u2'' \<mapsto>
          \<lparr>u_userId = ''u2'', u_userName = ''B'', u_userEmail = ''c@d.org'',
           u_firstSeen = 150, u_lastPurchaseAttempt = 150, u_totalAttempts = 1,
           u_successfulPurchases = 0, u_totalSpent = 0,
           u_lastSuccessfulPurchase = None, u_isPremium = None\<rparr>]\<rparr>"
  unfolding ledger_three_payments_def createPayment_def
  by (simp add: sample_defs regex_defs ledger_two_users_eq Let_def fun_upd_twist)

lemma ledger_mixed_eq:
  "ledger_mixed =
     \<lparr>transactions =
        [(''pi_1'',
          \<lparr>t_paymentIntentId = ''pi_1'', t_userId = ''u1'', t_userName = ''A'',
           t_userEmail = ''a@b.com'', t_amount = 999, t_currency = ''usd'',
           t_status = ''pending'', t_createdAt = 100, t_deviceInfo = None,
           t_appVersion = None, t_purchaseType = ''unlimited_video_selection'',
           t_completedAt = None\<rparr>),
         (''pi_2'',
          \<lparr>t_paymentIntentId = ''pi_2'', t_userId = ''u2'', t_userName = ''B'',
           t_userEmail = ''c@d.org'', t_amount = 999, t_currency = ''usd'',
           t_status = ''completed'', t_createdAt = 150, t_deviceInfo = None,
           t_appVersion = None, t_purchaseType = ''unlimited_video_selection'',
           t_completedAt = Some 200\<rparr>),
         (''pi_3'',
          \<lparr>t_paymentIntentId = ''pi_3'', t_userId = ''u1'', t_userName = ''A'',
           t_userEmail = ''a@b.com'', t_amount = 999, t_currency = ''usd'',
           t_status = ''pending'', t_createdAt = 170, t_deviceInfo = None,
           t_appVersion = None, t_purchaseType = ''unlimited_video_selection'',
           t_completedAt = None\<rparr>)],
      users =
        [''u1'' \<mapsto>
          \<lparr>u_userId = ''u1'', u_userName = ''A'', u_userEmail = ''a@b.com'',
           u_firstSeen = 100, u_lastPurchaseAttempt = 170, u_totalAttempts = 2,
           u_successfulPurchases = 0, u_totalSpent = 0,
           u_lastSuccessfulPurchase = None, u_isPremium = None\<rparr>,
         ''u2'' \<mapsto>
          \<lparr>u_userId = ''u2'', u_userName = ''B'', u_userEmail = ''c@d.org'',
           u_firstSeen = 150, u_lastPurchaseAttempt = 150, u_totalAttempts = 1,
           u_successfulPurchases = 1, u_totalSpent = 999,
           u_lastSuccessfulPurchase = Some 200, u_isPremium = Some True\<rparr>]\<rparr>"
  unfolding ledger_mixed_def confirmPayment_def
  by (simp add: sample_defs ledger_three_payments_eq Let_def)

lemma run_three_creates: "run three_creates empty_ledger = ledger_three_payments"
  by (simp add: three_creates_def ledger_three_payments_def ledger_two_users_def
      ledger_created_def)

lemma create_body_accepted:
  assumes "regex_test emailRegex email" and "email \<noteq> []" and "name \<noteq> []" and "uid \<noteq> []"
  shows "snd (createPayment (gateway_creates pid) now (create_body email name uid) st) =
     Inr \<lparr>cr_clientSecret = pid @ ''_secret'', cr_paymentIntentId = pid, cr_amount = 999,
          cr_currency = ''usd'', cr_userId = uid, cr_userName = name, cr_userEmail = email,
          cr_description = ''Kid Tok Premium - Unlimited Video Access for '' @ name,
          cr_receiptEmail = email, cr_timestamp = now At_reply_timestamp\<rparr>"
  using assms
  by (simp add: createPayment_def create_body_def gateway_creates_def falsy_def amount_def
      currency_def intent_request_def)

lemma create_body_successful:
  assumes "regex_test emailRegex email" and "email \<noteq> []" and "name \<noteq> []" and "uid \<noteq> []"
  shows "successful_create_of uid' (Create (gateway_creates pid) now (create_body email name uid)) st
           = (uid = uid')"
  using create_body_accepted [OF assms, of pid now st]
  by (simp add: create_body_def)

lemma sample_emails: "regex_test emailRegex ''a@b.com''" "regex_test emailRegex ''c@d.org''"
  by (simp_all add: regex_defs)

lemma sample_third_created:
  "createPayment (gateway_creates ''pi_3'') (clock_at 170)
     (create_body ''a@b.com'' ''A'' ''u1'') ledger_two_users =
   (ledger_three_payments,
    Inr \<lparr>cr_clientSecret = ''pi_3_secret'', cr_paymentIntentId = ''pi_3'', cr_amount = 999,
         cr_currency = ''usd'', cr_userId = ''u1'', cr_userName = ''A'',
         cr_userEmail = ''a@b.com'',
         cr_description = ''Kid Tok Premium - Unlimited Video Access for A'',
         cr_receiptEmail = ''a@b.com'', cr_timestamp = 170\<rparr>)"
  by (rule prod_eqI)
    (simp_all add: ledger_three_payments_def create_body_accepted regex_defs clock_at_def)

lemma run_create_and_confirm: "run create_and_confirm empty_ledger = ledger_confirmed"
  by (simp add: create_and_confirm_def ledger_confirmed_def ledger_created_def)

subsection \<open>The email pattern\<close>

text \<open>
  The derivatives decide the language, and the language of the email pattern is the
  \<^verbatim>\<open>local@domain.tld\<close> shape of the specification.
\<close>

lemma nullable_lang: "nullable r \<longleftrightarrow> [] \<in> lang r"
  by (induction r) (auto intro: star_empty)

lemma star_step:
  assumes "x \<in> star A" and "x = c # w"
  shows "\<exists>u v. w = u @ v \<and> c # u \<in> A \<and> v \<in> star A"
  using assms
proof (induction rule: star.induct)
  case star_empty
  then show ?case by simp
next
  case (star_more u v)
  show ?case
  proof (cases u)
    case Nil
    with star_more show ?thesis by simp
  next
    case (Cons a u')
    with star_more.prems have "a = c" and "w = u' @ v" by simp_all
    with Cons star_more.hyps(1,2) show ?thesis by blast
  qed
qed

lemma star_Cons:
  "c # w \<in> star A \<longleftrightarrow> (\<exists>u v. w = u @ v \<and> c # u \<in> A \<and> v \<in> star A)"
proof
  assume "c # w \<in> star A"
  then show "\<exists>u v. w = u @ v \<and> c # u \<in> A \<and> v \<in> star A"
    by (rule star_step) simp
next
  assume "\<exists>u v. w = u @ v \<and> c # u \<in> A \<and> v \<in> star A"
  then obtain u v where "w = u @ v" "c # u \<in> A" "v \<in> star A" by blast
  then show "c # w \<in> star A"
    using star_more [of "c # u" A v] by simp
qed

lemma lang_deriv: "w \<in> lang (deriv c r) \<longleftrightarrow> c # w \<in> lang r"
proof (induction r arbitrary: w)
  case (Seq r s)
  show ?case
  proof
    assume "w \<in> lang (deriv c (Seq r s))"
    then have "(\<exists>u v. w = u @ v \<and> c # u \<in> lang r \<and> v \<in> lang s)
        \<or> ([] \<in> lang r \<and> c # w \<in> lang s)"
      by (auto simp: Seq.IH nullable_lang split: if_splits)
    then show "c # w \<in> lang (Seq r s)"
    proof
      assume "\<exists>u v. w = u @ v \<and> c # u \<in> lang r \<and> v \<in> lang s"
      then obtain u v where "w = u @ v" "c # u \<in> lang r" "v \<in> lang s" by blast
      then have "c # w = (c # u) @ v \<and> c # u \<in> lang r \<and> v \<in> lang s" by simp
      then show ?thesis by (simp del: append_Cons) blast
    next
      assume "[] \<in> lang r \<and> c # w \<in> lang s"
      then have "c # w = [] @ (c # w) \<and> [] \<in> lang r \<and> c # w \<in> lang s" by simp
      then show ?thesis by (simp del: append_Nil) blast
    qed
  next
    assume "c # w \<in> lang (Seq r s)"
    then obtain u v where split: "c # w = u @ v" "u \<in> lang r" "v \<in> lang s"
      by auto
    show "w \<in> lang (deriv c (Seq r s))"
    proof (cases u)
      case Nil
      with split show ?thesis
        by (auto simp: Seq.IH nullable_lang)
    next
      case (Cons a u')
      with split have "w = u' @ v" "c # u' \<in> lang r" by simp_all
      with split(3) show ?thesis
        by (auto simp: Seq.IH nullable_lang)
    qed
  qed
next
  case (Star r)
  show ?case
    by (auto simp: Star.IH star_Cons)
qed auto

lemma regex_test_lang: "regex_test r s \<longleftrightarrow> s \<in> lang r"
  by (induction s arbitrary: r) (simp_all add: nullable_lang lang_deriv)

lemma star_Class: "w \<in> star {[c] | c. p c} \<longleftrightarrow> (\<forall>c \<in> set w. p c)"
proof
  assume "w \<in> star {[c] | c. p c}"
  then show "\<forall>c \<in> set w. p c"
    by induction auto
next
  assume "\<forall>c \<in> set w. p c"
  then show "w \<in> star {[c] | c. p c}"
  proof (induction w)
    case Nil
    show ?case by (rule star_empty)
  next
    case (Cons a w)
    then have "[a] \<in> {[c] | c. p c}" and "w \<in> star {[c] | c. p c}" by auto
    then have "[a] @ w \<in> star {[c] | c. p c}" by (rule star_more)
    then show ?case by simp
  qed
qed

lemma lang_Plus_Class: "w \<in> lang (Plus (Class p)) \<longleftrightarrow> w \<noteq> [] \<and> (\<forall>c \<in> set w. p c)"
proof
  assume "w \<in> lang (Plus (Class p))"
  then show "w \<noteq> [] \<and> (\<forall>c \<in> set w. p c)"
    by (auto simp: Plus_def star_Class)
next
  assume a: "w \<noteq> [] \<and> (\<forall>c \<in> set w. p c)"
  then obtain c w' where w: "w = [c] @ w'" by (cases w) auto
  with a have "p c" and "w' \<in> star {[c] | c. p c}" by (auto simp: star_Class)
  with w show "w \<in> lang (Plus (Class p))"
    unfolding Plus_def lang.simps by blast
qed

lemma lang_SeqI: "u \<in> lang r \<Longrightarrow> v \<in> lang s \<Longrightarrow> u @ v \<in> lang (Seq r s)"
  by auto

lemma lang_literalI: "v \<in> lang r \<Longrightarrow> a # v \<in> lang (Seq (Class (\<lambda>c. c = a)) r)"
  using lang_SeqI [of "[a]" "Class (\<lambda>c. c = a)" v r] by simp

lemma emailRegex_shape: "regex_test emailRegex s \<longleftrightarrow> email_shape s"
proof -
  let ?part = "lang (Plus (Class not_space_at))"
  have "s \<in> lang emailRegex \<longleftrightarrow>
      (\<exists>l d t. s = l @ ''@'' @ d @ ''.'' @ t \<and> l \<in> ?part \<and> d \<in> ?part \<and> t \<in> ?part)"
  proof
    assume "s \<in> lang emailRegex"
    then show "\<exists>l d t. s = l @ ''@'' @ d @ ''.'' @ t \<and> l \<in> ?part \<and> d \<in> ?part \<and> t \<in> ?part"
      unfolding emailRegex_def lang.simps by auto
  next
    assume "\<exists>l d t. s = l @ ''@'' @ d @ ''.'' @ t \<and> l \<in> ?part \<and> d \<in> ?part \<and> t \<in> ?part"
    then obtain l d t where s: "s = l @ ''@'' @ d @ ''.'' @ t"
      and parts: "l \<in> ?part" "d \<in> ?part" "t \<in> ?part"
      by blast
    from parts(3) have "CHR ''.'' # t \<in> lang (Seq (Class (\<lambda>c. c = CHR ''.'')) (Plus (Class not_space_at)))"
      by (rule lang_literalI)
    with parts(2) have "d @ CHR ''.'' # t \<in>
        lang (Seq (Plus (Class not_space_at))
               (Seq (Class (\<lambda>c. c = CHR ''.'')) (Plus (Class not_space_at))))"
      by (rule lang_SeqI)
    then have "CHR ''@'' # d @ CHR ''.'' # t \<in>
        lang (Seq (Class (\<lambda>c. c = CHR ''@''))
          (Seq (Plus (Class not_space_at))
               (Seq (Class (\<lambda>c. c = CHR ''.'')) (Plus (Class not_space_at)))))"
      by (rule lang_literalI)
    with parts(1) have "l @ CHR ''@'' # d @ CHR ''.'' # t \<in> lang emailRegex"
      unfolding emailRegex_def by (rule lang_SeqI)
    with s show "s \<in> lang emailRegex" by simp
  qed
  moreover have "w \<in> ?part \<longleftrightarrow> address_part w" for w
    by (simp add: lang_Plus_Class address_part_def not_space_at_def)
  ultimately show ?thesis
    by (simp only: regex_test_lang email_shape_def)
qed

subsection \<open>What a create-payment request writes\<close>

lemma createPayment_rejected:
  "isl (snd (createPayment create now req st)) \<Longrightarrow> fst (createPayment create now req st) = st"
  by (auto simp: createPayment_def split: if_splits sum.splits)

lemma createPayment_accepted:
  assumes "createPayment create now req st = (st', Inr reply)"
  obtains paymentIntent where
    "\<not> falsy (cq_userEmail req)" and "\<not> falsy (cq_userName req)"
    and "\<not> falsy (cq_userId req)"
    and "regex_test emailRegex (the (cq_userEmail req))"
    and "create (intent_request now req) = Inr paymentIntent"
    and "transactions st' =
           AList.update (pi_id paymentIntent) (transactionData now req paymentIntent)
             (transactions st)"
    and "users st' = upsert_user now req (users st)"
    and "cr_paymentIntentId reply = pi_id paymentIntent"
    and "cr_userId reply = the (cq_userId req)"
    and "cr_amount reply = 999"
    and "cr_userName reply = the (cq_userName req)"
    and "cr_userEmail reply = the (cq_userEmail req)"
  using assms
  by (auto simp: createPayment_def amount_def split: if_splits sum.splits)

lemma upsert_user_present:
  "us (the (cq_userId req)) = Some u \<Longrightarrow>
   upsert_user now req us =
     us(the (cq_userId req) \<mapsto>
        u\<lparr>u_lastPurchaseAttempt := now At_existing_lastPurchaseAttempt,
          u_totalAttempts := u_totalAttempts u + 1\<rparr>)"
  by (simp add: upsert_user_def Let_def)

lemma upsert_user_absent:
  "us (the (cq_userId req)) = None \<Longrightarrow>
   upsert_user now req us =
     us(the (cq_userId req) \<mapsto>
        \<lparr>u_userId = the (cq_userId req), u_userName = the (cq_userName req),
         u_userEmail = the (cq_userEmail req), u_firstSeen = now At_firstSeen,
         u_lastPurchaseAttempt = now At_new_lastPurchaseAttempt, u_totalAttempts = 1,
         u_successfulPurchases = 0, u_totalSpent = 0, u_lastSuccessfulPurchase = None,
         u_isPremium = None\<rparr>)"
  by (simp add: upsert_user_def Let_def)

lemma falsy_iff: "\<not> falsy x \<longleftrightarrow> (\<exists>s. x = Some s \<and> s \<noteq> [])"
  by (cases x) (simp_all add: falsy_def)

subsection \<open>What a confirmation writes\<close>

lemma confirmPayment_succeeded:
  assumes "\<not> falsy (fq_paymentIntentId req)" and "\<not> falsy (fq_userId req)"
    and "retrieve (the (fq_paymentIntentId req)) = Inr paymentIntent"
    and "pi_status paymentIntent = ''succeeded''"
  shows "confirmPayment retrieve now req st =
           (\<lparr>transactions =
                complete_transaction now (the (fq_paymentIntentId req)) (transactions st),
             users = credit_user now (the (fq_userId req)) (pi_amount paymentIntent) (users st)\<rparr>,
            Inr \<lparr>fr_success = True, fr_message = ''Payment confirmed successfully'',
                 fr_paymentIntentId = the (fq_paymentIntentId req),
                 fr_amount = pi_amount paymentIntent, fr_status = ''succeeded''\<rparr>)"
  using assms by (simp add: confirmPayment_def Let_def)

lemma map_of_complete_transaction:
  "map_of (complete_transaction now p txs) q =
     (if q = p
      then map_option (\<lambda>t. t\<lparr>t_status := ''completed'', t_completedAt := Some (now At_completedAt)\<rparr>)
             (map_of txs p)
      else map_of txs q)"
  by (simp add: complete_transaction_def update_conv' split: option.split)

lemma complete_transaction_absent:
  "map_of txs p = None \<Longrightarrow> complete_transaction now p txs = txs"
  by (simp add: complete_transaction_def)

lemma credit_user_absent:
  "us uid = None \<Longrightarrow> credit_user now uid paid us = us"
  by (simp add: credit_user_def)

lemma credit_user_present:
  "us uid = Some u \<Longrightarrow>
   credit_user now uid paid us =
     us(uid \<mapsto> u\<lparr>u_successfulPurchases := u_successfulPurchases u + 1,
                  u_totalSpent := u_totalSpent u + paid,
                  u_lastSuccessfulPurchase := Some (now At_lastSuccessfulPurchase),
                  u_isPremium := Some True\<rparr>)"
  by (simp add: credit_user_def)

lemma valid_confirm_body:
  "pid \<noteq> [] \<Longrightarrow> \<not> falsy (fq_paymentIntentId (confirm_body pid uid))"
  "uid \<noteq> [] \<Longrightarrow> \<not> falsy (fq_userId (confirm_body pid uid))"
  "the (fq_paymentIntentId (confirm_body pid uid)) = pid"
  "the (fq_userId (confirm_body pid uid)) = uid"
  by (simp_all add: confirm_body_def falsy_def)

subsection \<open>The outcomes of the two handlers\<close>

lemma createPayment_cases:
  "(\<exists>err. createPayment create now req st = (st, Inl err))
   \<or> (\<exists>made reply. \<not> falsy (cq_userId req)
         \<and> createPayment create now req st =
             (\<lparr>transactions =
                 AList.update (pi_id made) (transactionData now req made) (transactions st),
               users = upsert_user now req (users st)\<rparr>, Inr reply)
         \<and> cr_paymentIntentId reply = pi_id made)"
  by (auto simp: createPayment_def split: sum.split)

lemma confirmPayment_cases:
  "(\<exists>err. confirmPayment retrieve now req st = (st, Inl err))
   \<or> (\<exists>paid reply. confirmPayment retrieve now req st =
         (\<lparr>transactions =
             complete_transaction now (the (fq_paymentIntentId req)) (transactions st),
           users = credit_user now (the (fq_userId req)) paid (users st)\<rparr>, Inr reply))"
  by (auto simp: confirmPayment_def Let_def split: sum.split)

subsection \<open>The sort of the two queries\<close>

lemma insert_sorted_by_date:
  "insert_sorted by_date_descending x xs = insort_key (\<lambda>t. - t_createdAt t) x xs"
  by (induction xs) (simp_all add: by_date_descending_def)

lemma js_sort_by_date:
  "js_sort by_date_descending xs = sort_key (\<lambda>t. - t_createdAt t) xs"
  by (induction xs) (simp_all add: js_sort_def insert_sorted_by_date)

lemma js_sort_newest_first:
  "sorted_wrt (\<lambda>a b. t_createdAt b \<le> t_createdAt a) (js_sort by_date_descending xs)"
proof -
  have "sorted (map (\<lambda>t. - t_createdAt t) (sort_key (\<lambda>t. - t_createdAt t) xs))"
    by (rule sorted_sort_key)
  then show ?thesis
    by (simp add: js_sort_by_date sorted_map)
qed

lemma mset_js_sort: "mset (js_sort by_date_descending xs) = mset xs"
  by (simp add: js_sort_by_date)

lemma filter_js_sort:
  "filter P (js_sort by_date_descending xs) = js_sort by_date_descending (filter P xs)"
  by (simp add: js_sort_by_date filter_sort)

lemma length_js_sort: "length (js_sort by_date_descending xs) = length xs"
  by (simp add: js_sort_by_date)

lemma set_js_sort: "set (js_sort by_date_descending xs) = set xs"
  by (simp add: js_sort_by_date)

lemma reduce_sum: "foldl (\<lambda>sum t. sum + f t) a xs = a + sum_list (map f xs)"
  for a :: int
  by (induction xs arbitrary: a) simp_all

lemma sum_list_js_sort:
  "sum_list (map f (js_sort by_date_descending xs)) = sum_list (map f xs)"
  for f :: "transaction \<Rightarrow> int"
proof -
  have "mset (map f (js_sort by_date_descending xs)) = mset (map f xs)"
    by (simp add: mset_js_sort)
  then show ?thesis
    by (metis sum_mset_sum_list)
qed

subsection \<open>Attempts recorded along a run\<close>

lemma credit_user_attempts:
  "recorded_attempts (credit_user now key paid us) uid n = recorded_attempts us uid n"
  by (auto simp: recorded_attempts_def credit_user_def split: option.splits)

lemma upsert_user_attempts:
  assumes "recorded_attempts us uid n" and "\<not> falsy (cq_userId req)"
  shows "recorded_attempts (upsert_user now req us) uid
           (n + (if cq_userId req = Some uid then 1 else 0))"
  using assms
  by (auto simp: recorded_attempts_def upsert_user_def Let_def falsy_iff split: option.splits)

lemma apply_event_attempts:
  assumes "recorded_attempts (users st) uid n"
  shows "recorded_attempts (users (apply_event e st)) uid
           (n + (if successful_create_of uid e st then 1 else 0))"
proof (cases e)
  case (Create create now req)
  from createPayment_cases [of create now req st] show ?thesis
  proof (elim disjE exE conjE)
    fix err
    assume "createPayment create now req st = (st, Inl err)"
    with Create assms show ?thesis by simp
  next
    fix made reply
    assume valid: "\<not> falsy (cq_userId req)"
      and eq: "createPayment create now req st =
             (\<lparr>transactions =
                 AList.update (pi_id made) (transactionData now req made) (transactions st),
               users = upsert_user now req (users st)\<rparr>, Inr reply)"
    from upsert_user_attempts [where now = now, OF assms valid] Create eq
    show ?thesis by simp
  qed
next
  case (Confirm retrieve now req)
  from confirmPayment_cases [of retrieve now req st] show ?thesis
  proof (elim disjE exE)
    fix err
    assume "confirmPayment retrieve now req st = (st, Inl err)"
    with Confirm assms show ?thesis by simp
  next
    fix paid reply
    assume "confirmPayment retrieve now req st =
         (\<lparr>transactions =
             complete_transaction now (the (fq_paymentIntentId req)) (transactions st),
           users = credit_user now (the (fq_userId req)) paid (users st)\<rparr>, Inr reply)"
    with Confirm assms show ?thesis
      by (simp add: credit_user_attempts)
  qed
qed

lemma run_attempts:
  "recorded_attempts (users st) uid n \<Longrightarrow>
   recorded_attempts (users (run es st)) uid (n + successful_creates uid es st)"
proof (induction es arbitrary: st n)
  case Nil
  then show ?case by simp
next
  case (Cons e es)
  from Cons.IH [OF apply_event_attempts [OF Cons.prems, of e]]
  show ?case by (simp add: add.assoc)
qed

subsection \<open>Statuses along a run\<close>

lemma apply_event_valid_status:
  assumes "\<forall>p t. map_of (transactions st) p = Some t \<longrightarrow> valid_status (t_status t)"
  shows "\<forall>p t. map_of (transactions (apply_event e st)) p = Some t \<longrightarrow> valid_status (t_status t)"
proof (cases e)
  case (Create create now req)
  from createPayment_cases [of create now req st] show ?thesis
  proof (elim disjE exE conjE)
    fix err
    assume "createPayment create now req st = (st, Inl err)"
    with Create assms show ?thesis by simp
  next
    fix made reply
    assume "createPayment create now req st =
             (\<lparr>transactions =
                 AList.update (pi_id made) (transactionData now req made) (transactions st),
               users = upsert_user now req (users st)\<rparr>, Inr reply)"
    with Create assms show ?thesis
      by (simp add: update_conv' transactionData_def valid_status_def)
  qed
next
  case (Confirm retrieve now req)
  from confirmPayment_cases [of retrieve now req st] show ?thesis
  proof (elim disjE exE)
    fix err
    assume "confirmPayment retrieve now req st = (st, Inl err)"
    with Confirm assms show ?thesis by simp
  next
    fix paid reply
    assume "confirmPayment retrieve now req st =
         (\<lparr>transactions =
             complete_transaction now (the (fq_paymentIntentId req)) (transactions st),
           users = credit_user now (the (fq_userId req)) paid (users st)\<rparr>, Inr reply)"
    with Confirm assms show ?thesis
      by (auto simp: map_of_complete_transaction valid_status_def split: if_splits)
  qed
qed

lemma run_valid_status:
  "\<forall>p t. map_of (transactions st) p = Some t \<longrightarrow> valid_status (t_status t) \<Longrightarrow>
   \<forall>p t. map_of (transactions (run es st)) p = Some t \<longrightarrow> valid_status (t_status t)"
proof (induction es arbitrary: st)
  case Nil
  then show ?case by simp
next
  case (Cons e es)
  from Cons.IH [OF apply_event_valid_status [OF Cons.prems, of e]]
  show ?case by simp
qed

lemma apply_event_keeps_completed:
  assumes "fresh_id e st" and "map_of (transactions st) p = Some t"
  shows "\<exists>t'. map_of (transactions (apply_event e st)) p = Some t'
           \<and> (t_status t = ''completed'' \<longrightarrow> t_status t' = ''completed'')"
proof (cases e)
  case (Create create now req)
  from createPayment_cases [of create now req st] show ?thesis
  proof (elim disjE exE conjE)
    fix err
    assume "createPayment create now req st = (st, Inl err)"
    with Create assms show ?thesis by simp
  next
    fix made reply
    assume eq: "createPayment create now req st =
             (\<lparr>transactions =
                 AList.update (pi_id made) (transactionData now req made) (transactions st),
               users = upsert_user now req (users st)\<rparr>, Inr reply)"
      and pid: "cr_paymentIntentId reply = pi_id made"
    from assms(1) Create eq pid have "map_of (transactions st) (pi_id made) = None"
      by simp
    with assms(2) have "p \<noteq> pi_id made"
      by auto
    with Create eq assms(2) show ?thesis
      by (simp add: update_conv')
  qed
next
  case (Confirm retrieve now req)
  from confirmPayment_cases [of retrieve now req st] show ?thesis
  proof (elim disjE exE)
    fix err
    assume "confirmPayment retrieve now req st = (st, Inl err)"
    with Confirm assms show ?thesis by simp
  next
    fix paid reply
    assume "confirmPayment retrieve now req st =
         (\<lparr>transactions =
             complete_transaction now (the (fq_paymentIntentId req)) (transactions st),
           users = credit_user now (the (fq_userId req)) paid (users st)\<rparr>, Inr reply)"
    with Confirm assms(2) show ?thesis
      by (auto simp: map_of_complete_transaction)
  qed
qed

subsection \<open>A confirmation the gateway does not report as succeeded\<close>

text \<open>
  Claim C2. When the request names a payment intent and a user and the gateway reports
  a status other than \<^verbatim>\<open>succeeded\<close>, confirm-payment answers 400 with the error
  \<^verbatim>\<open>Payment not completed\<close> and the status the gateway reported, and the ledger it leaves
  is the ledger it found: neither \<^verbatim>\<open>transactions\<close> nor \<^verbatim>\<open>users\<close> has changed.
\<close>

theorem confirm_not_succeeded_unchanged:
  assumes "\<not> falsy (fq_paymentIntentId req)" and "\<not> falsy (fq_userId req)"
    and "retrieve (the (fq_paymentIntentId req)) = Inr paymentIntent"
    and "pi_status paymentIntent \<noteq> ''succeeded''"
  shows "confirmPayment retrieve now req st =
           (st, Inl \<lparr>e_code = 400, e_error = ''Payment not completed'', e_type = None,
                     e_status = Some (pi_status paymentIntent)\<rparr>)"
  using assms by (simp add: confirmPayment_def)

theorem confirm_not_succeeded_unchanged_witness:
  "\<not> falsy (fq_paymentIntentId (confirm_body ''pi_1'' ''u1''))
   \<and> \<not> falsy (fq_userId (confirm_body ''pi_1'' ''u1''))
   \<and> gateway_reports ''processing'' 999 (the (fq_paymentIntentId (confirm_body ''pi_1'' ''u1'')))
       = Inr \<lparr>pi_id = ''pi_1'', pi_client_secret = ''pi_1_secret'', pi_description = [],
               pi_status = ''processing'', pi_amount = 999\<rparr>
   \<and> ''processing'' \<noteq> ''succeeded''
   \<and> confirmPayment (gateway_reports ''processing'' 999) (clock_at 200)
         (confirm_body ''pi_1'' ''u1'') ledger_created
       = (ledger_created,
          Inl \<lparr>e_code = 400, e_error = ''Payment not completed'', e_type = None,
               e_status = Some ''processing''\<rparr>)"
proof -
  have a: "\<not> falsy (fq_paymentIntentId (confirm_body ''pi_1'' ''u1''))"
    and b: "\<not> falsy (fq_userId (confirm_body ''pi_1'' ''u1''))"
    by (simp_all add: confirm_body_def falsy_def)
  have c: "gateway_reports ''processing'' 999 (the (fq_paymentIntentId (confirm_body ''pi_1'' ''u1'')))
       = Inr \<lparr>pi_id = ''pi_1'', pi_client_secret = ''pi_1_secret'', pi_description = [],
               pi_status = ''processing'', pi_amount = 999\<rparr>"
    by (simp add: confirm_body_def gateway_reports_def)
  have d: "pi_status \<lparr>pi_id = ''pi_1'', pi_client_secret = ''pi_1_secret'', pi_description = [],
               pi_status = ''processing'', pi_amount = 999\<rparr> \<noteq> ''succeeded''"
    by simp
  from confirm_not_succeeded_unchanged
         [where retrieve = "gateway_reports ''processing'' 999"
            and req = "confirm_body ''pi_1'' ''u1''" and now = "clock_at 200"
            and st = ledger_created, OF a b c d] a b c
  show ?thesis by simp
qed

subsection \<open>A confirmation that finds no transaction or no user\<close>

text \<open>
  Claim C9. When the gateway reports \<^verbatim>\<open>succeeded\<close>, confirm-payment answers with the success
  reply (the gateway's amount and status) whatever the ledger holds; when \<^verbatim>\<open>transactions\<close>
  has no entry for the payment intent id it is left as it was, and when \<^verbatim>\<open>users\<close> has no
  entry for the user id it is left as it was.
\<close>

theorem confirm_skips_absent_records:
  assumes "\<not> falsy (fq_paymentIntentId req)" and "\<not> falsy (fq_userId req)"
    and "retrieve (the (fq_paymentIntentId req)) = Inr paymentIntent"
    and "pi_status paymentIntent = ''succeeded''"
  shows "snd (confirmPayment retrieve now req st) =
           Inr \<lparr>fr_success = True, fr_message = ''Payment confirmed successfully'',
                fr_paymentIntentId = the (fq_paymentIntentId req),
                fr_amount = pi_amount paymentIntent, fr_status = ''succeeded''\<rparr>
         \<and> (map_of (transactions st) (the (fq_paymentIntentId req)) = None \<longrightarrow>
              transactions (fst (confirmPayment retrieve now req st)) = transactions st)
         \<and> (users st (the (fq_userId req)) = None \<longrightarrow>
              users (fst (confirmPayment retrieve now req st)) = users st)"
  by (simp add: confirmPayment_succeeded [where retrieve = retrieve and req = req, OF assms] complete_transaction_absent
      credit_user_absent)

theorem confirm_skips_absent_records_witness:
  "\<not> falsy (fq_paymentIntentId (confirm_body ''pi_9'' ''u9''))
   \<and> \<not> falsy (fq_userId (confirm_body ''pi_9'' ''u9''))
   \<and> gateway_reports ''succeeded'' 999 (the (fq_paymentIntentId (confirm_body ''pi_9'' ''u9'')))
       = Inr \<lparr>pi_id = ''pi_9'', pi_client_secret = ''pi_9_secret'', pi_description = [],
               pi_status = ''succeeded'', pi_amount = 999\<rparr>
   \<and> map_of (transactions ledger_created) ''pi_9'' = None
   \<and> users ledger_created ''u9'' = None
   \<and> snd (confirmPayment (gateway_reports ''succeeded'' 999) (clock_at 200)
            (confirm_body ''pi_9'' ''u9'') ledger_created)
       = Inr \<lparr>fr_success = True, fr_message = ''Payment confirmed successfully'',
               fr_paymentIntentId = ''pi_9'', fr_amount = 999, fr_status = ''succeeded''\<rparr>
   \<and> transactions (fst (confirmPayment (gateway_reports ''succeeded'' 999) (clock_at 200)
            (confirm_body ''pi_9'' ''u9'') ledger_created)) = transactions ledger_created
   \<and> users (fst (confirmPayment (gateway_reports ''succeeded'' 999) (clock_at 200)
            (confirm_body ''pi_9'' ''u9'') ledger_created)) = users ledger_created"
proof -
  have a: "\<not> falsy (fq_paymentIntentId (confirm_body ''pi_9'' ''u9''))"
    and b: "\<not> falsy (fq_userId (confirm_body ''pi_9'' ''u9''))"
    by (simp_all add: valid_confirm_body)
  have c: "gateway_reports ''succeeded'' 999 (the (fq_paymentIntentId (confirm_body ''pi_9'' ''u9'')))
       = Inr \<lparr>pi_id = ''pi_9'', pi_client_secret = ''pi_9_secret'', pi_description = [],
               pi_status = ''succeeded'', pi_amount = 999\<rparr>"
    by (simp add: valid_confirm_body gateway_reports_def)
  have d: "pi_status \<lparr>pi_id = ''pi_9'', pi_client_secret = ''pi_9_secret'', pi_description = [],
               pi_status = ''succeeded'', pi_amount = 999\<rparr> = ''succeeded''"
    by simp
  have e: "map_of (transactions ledger_created) ''pi_9'' = None"
    and f: "users ledger_created ''u9'' = None"
    by (simp_all add: ledger_created_eq)
  from confirm_skips_absent_records
         [where retrieve = "gateway_reports ''succeeded'' 999"
            and req = "confirm_body ''pi_9'' ''u9''" and now = "clock_at 200"
            and st = ledger_created, OF a b c d] a b c e f
  show ?thesis by (simp add: valid_confirm_body)
qed

subsection \<open>Whose aggregates a confirmation updates\<close>

text \<open>
  Claim C10. When the gateway reports \<^verbatim>\<open>succeeded\<close> and the user named in the request body
  has a record, the aggregates updated are those of that record: \<^verbatim>\<open>users\<close> changes at that
  key and nowhere else, whether or not a transaction is stored under the payment intent
  id. The \<^verbatim>\<open>userId\<close> stored in the transaction is not read: when it differs from the
  request's, the stored user's record stays as it was while the transaction is marked
  completed.
\<close>

theorem confirm_credits_supplied_user:
  assumes "\<not> falsy (fq_paymentIntentId req)" and "\<not> falsy (fq_userId req)"
    and "retrieve (the (fq_paymentIntentId req)) = Inr paymentIntent"
    and "pi_status paymentIntent = ''succeeded''"
    and "users st (the (fq_userId req)) = Some u"
  shows "users (fst (confirmPayment retrieve now req st)) =
           (users st)(the (fq_userId req) \<mapsto>
              u\<lparr>u_successfulPurchases := u_successfulPurchases u + 1,
                u_totalSpent := u_totalSpent u + pi_amount paymentIntent,
                u_lastSuccessfulPurchase := Some (now At_lastSuccessfulPurchase),
                u_isPremium := Some True\<rparr>)
         \<and> (\<forall>t. map_of (transactions st) (the (fq_paymentIntentId req)) = Some t \<longrightarrow>
              map_of (transactions (fst (confirmPayment retrieve now req st)))
                  (the (fq_paymentIntentId req))
                = Some (t\<lparr>t_status := ''completed'',
                           t_completedAt := Some (now At_completedAt)\<rparr>)
              \<and> (t_userId t \<noteq> the (fq_userId req) \<longrightarrow>
                   users (fst (confirmPayment retrieve now req st)) (t_userId t)
                     = users st (t_userId t)))"
  using assms(5)
  by (simp add: confirmPayment_succeeded [where retrieve = retrieve and req = req, OF assms(1-4)]
      credit_user_present map_of_complete_transaction)

theorem confirm_credits_supplied_user_witness:
  "\<not> falsy (fq_paymentIntentId (confirm_body ''pi_1'' ''u2''))
   \<and> \<not> falsy (fq_userId (confirm_body ''pi_1'' ''u2''))
   \<and> gateway_reports ''succeeded'' 999 (the (fq_paymentIntentId (confirm_body ''pi_1'' ''u2'')))
       = Inr \<lparr>pi_id = ''pi_1'', pi_client_secret = ''pi_1_secret'', pi_description = [],
               pi_status = ''succeeded'', pi_amount = 999\<rparr>
   \<and> map_option t_userId (map_of (transactions ledger_two_users) ''pi_1'') = Some ''u1''
   \<and> map_option u_successfulPurchases (users ledger_two_users ''u2'') = Some 0
   \<and> map_option u_successfulPurchases
        (users (fst (confirmPayment (gateway_reports ''succeeded'' 999) (clock_at 200)
            (confirm_body ''pi_1'' ''u2'') ledger_two_users)) ''u2'') = Some 1
   \<and> map_option u_totalSpent
        (users (fst (confirmPayment (gateway_reports ''succeeded'' 999) (clock_at 200)
            (confirm_body ''pi_1'' ''u2'') ledger_two_users)) ''u2'') = Some 999
   \<and> map_option u_isPremium
        (users (fst (confirmPayment (gateway_reports ''succeeded'' 999) (clock_at 200)
            (confirm_body ''pi_1'' ''u2'') ledger_two_users)) ''u2'') = Some (Some True)
   \<and> users (fst (confirmPayment (gateway_reports ''succeeded'' 999) (clock_at 200)
            (confirm_body ''pi_1'' ''u2'') ledger_two_users)) ''u1''
       = users ledger_two_users ''u1''
   \<and> map_option t_status
        (map_of (transactions (fst (confirmPayment (gateway_reports ''succeeded'' 999)
            (clock_at 200) (confirm_body ''pi_1'' ''u2'') ledger_two_users))) ''pi_1'')
       = Some ''completed''"
proof -
  let ?st' = "fst (confirmPayment (gateway_reports ''succeeded'' 999) (clock_at 200)
            (confirm_body ''pi_1'' ''u2'') ledger_two_users)"
  let ?t = "\<lparr>t_paymentIntentId = ''pi_1'', t_userId = ''u1'', t_userName = ''A'',
           t_userEmail = ''a@b.com'', t_amount = 999, t_currency = ''usd'',
           t_status = ''pending'', t_createdAt = 100, t_deviceInfo = None,
           t_appVersion = None, t_purchaseType = ''unlimited_video_selection'',
           t_completedAt = None\<rparr>"
  have a: "\<not> falsy (fq_paymentIntentId (confirm_body ''pi_1'' ''u2''))"
    and b: "\<not> falsy (fq_userId (confirm_body ''pi_1'' ''u2''))"
    by (simp_all add: valid_confirm_body)
  have c: "gateway_reports ''succeeded'' 999 (the (fq_paymentIntentId (confirm_body ''pi_1'' ''u2'')))
       = Inr \<lparr>pi_id = ''pi_1'', pi_client_secret = ''pi_1_secret'', pi_description = [],
               pi_status = ''succeeded'', pi_amount = 999\<rparr>"
    by (simp add: valid_confirm_body gateway_reports_def)
  have d: "pi_status \<lparr>pi_id = ''pi_1'', pi_client_secret = ''pi_1_secret'', pi_description = [],
               pi_status = ''succeeded'', pi_amount = 999\<rparr> = ''succeeded''"
    by simp
  have e: "users ledger_two_users (the (fq_userId (confirm_body ''pi_1'' ''u2''))) =
      Some \<lparr>u_userId = ''u2'', u_userName = ''B'', u_userEmail = ''c@d.org'',
           u_firstSeen = 150, u_lastPurchaseAttempt = 150, u_totalAttempts = 1,
           u_successfulPurchases = 0, u_totalSpent = 0,
           u_lastSuccessfulPurchase = None, u_isPremium = None\<rparr>"
    by (simp add: valid_confirm_body ledger_two_users_eq)
  have f: "map_of (transactions ledger_two_users)
             (the (fq_paymentIntentId (confirm_body ''pi_1'' ''u2''))) = Some ?t"
    by (simp add: valid_confirm_body ledger_two_users_eq)
  note credited = confirm_credits_supplied_user
         [where retrieve = "gateway_reports ''succeeded'' 999"
            and req = "confirm_body ''pi_1'' ''u2''" and now = "clock_at 200"
            and st = ledger_two_users, OF a b c d e]
  from credited [THEN conjunct1] have users':
    "map_option u_successfulPurchases (users ?st' ''u2'') = Some 1"
    "map_option u_totalSpent (users ?st' ''u2'') = Some 999"
    "map_option u_isPremium (users ?st' ''u2'') = Some (Some True)"
    by (simp_all add: valid_confirm_body)
  from credited [THEN conjunct2, THEN spec, THEN mp, OF f] have tx':
    "map_option t_status (map_of (transactions ?st') ''pi_1'') = Some ''completed''"
    "users ?st' ''u1'' = users ledger_two_users ''u1''"
    by (simp_all add: valid_confirm_body)
  from e f have before:
    "map_option t_userId (map_of (transactions ledger_two_users) ''pi_1'') = Some ''u1''"
    "map_option u_successfulPurchases (users ledger_two_users ''u2'') = Some 0"
    by (simp_all add: valid_confirm_body)
  from a b c before users' tx' show ?thesis by blast
qed

subsection \<open>Confirming a completed transaction again\<close>




subsection \<open>One payment, created and confirmed\<close>

text \<open>
  Claim C3. Starting from the empty ledger, let a create-payment request succeed and let
  the payment intent it returned be confirmed for the same user, the gateway reporting
  \<^verbatim>\<open>succeeded\<close> and the amount of the intent. Then the transaction has status
  \<^verbatim>\<open>completed\<close> and its \<^verbatim>\<open>completedAt\<close> is the instant of the confirmation, and the user has
  \<^verbatim>\<open>successfulPurchases = 1\<close>, \<^verbatim>\<open>totalSpent = 999\<close> and \<^verbatim>\<open>isPremium = true\<close>. (The id the
  gateway assigned is not the empty string: the confirmation would be refused as
  incomplete before the gateway is asked.)
\<close>

theorem create_then_confirm:
  assumes "createPayment create now1 creq empty_ledger = (st1, Inr created)"
    and "cr_paymentIntentId created \<noteq> []"
    and "retrieve (cr_paymentIntentId created) = Inr paymentIntent"
    and "pi_status paymentIntent = ''succeeded''"
    and "pi_amount paymentIntent = cr_amount created"
    and "confirmPayment retrieve now2
           (confirm_body (cr_paymentIntentId created) (cr_userId created)) st1 = (st2, reply)"
  shows "map_option t_status (map_of (transactions st2) (cr_paymentIntentId created))
           = Some ''completed''
         \<and> map_option t_completedAt (map_of (transactions st2) (cr_paymentIntentId created))
           = Some (Some (now2 At_completedAt))
         \<and> map_option u_successfulPurchases (users st2 (cr_userId created)) = Some 1
         \<and> map_option u_totalSpent (users st2 (cr_userId created)) = Some 999
         \<and> map_option u_isPremium (users st2 (cr_userId created)) = Some (Some True)"
proof -
  from assms(1) obtain made where
    valid: "\<not> falsy (cq_userId creq)"
    and txs1: "transactions st1 =
           AList.update (pi_id made) (transactionData now1 creq made)
             (transactions empty_ledger)"
    and users1: "users st1 = upsert_user now1 creq (users empty_ledger)"
    and pid: "cr_paymentIntentId created = pi_id made"
    and uid: "cr_userId created = the (cq_userId creq)"
    and paid: "cr_amount created = 999"
    by (rule createPayment_accepted)
  let ?req = "confirm_body (cr_paymentIntentId created) (cr_userId created)"
  from valid uid have "cr_userId created \<noteq> []"
    by (auto simp: falsy_iff)
  with assms(2) have a: "\<not> falsy (fq_paymentIntentId ?req)" and b: "\<not> falsy (fq_userId ?req)"
    by (simp_all add: valid_confirm_body)
  have c: "retrieve (the (fq_paymentIntentId ?req)) = Inr paymentIntent"
    using assms(3) by (simp add: valid_confirm_body)
  have st2: "st2 =
      \<lparr>transactions = complete_transaction now2 (cr_paymentIntentId created) (transactions st1),
       users = credit_user now2 (cr_userId created) (pi_amount paymentIntent) (users st1)\<rparr>"
    using confirmPayment_succeeded [where retrieve = retrieve and req = ?req, OF a b c assms(4),
        of now2 st1] assms(6)
    by (simp add: valid_confirm_body)
  have "map_of (transactions st1) (cr_paymentIntentId created)
          = Some (transactionData now1 creq made)"
    by (simp add: txs1 pid empty_ledger_def)
  then have tx: "map_of (transactions st2) (cr_paymentIntentId created)
          = Some ((transactionData now1 creq made)
                   \<lparr>t_status := ''completed'', t_completedAt := Some (now2 At_completedAt)\<rparr>)"
    by (simp add: st2 map_of_complete_transaction)
  have "users st1 (cr_userId created) =
          Some \<lparr>u_userId = the (cq_userId creq), u_userName = the (cq_userName creq),
         u_userEmail = the (cq_userEmail creq), u_firstSeen = now1 At_firstSeen,
         u_lastPurchaseAttempt = now1 At_new_lastPurchaseAttempt, u_totalAttempts = 1,
         u_successfulPurchases = 0, u_totalSpent = 0, u_lastSuccessfulPurchase = None,
         u_isPremium = None\<rparr>"
    by (simp add: users1 uid empty_ledger_def upsert_user_absent)
  then have "users st2 (cr_userId created) =
          Some \<lparr>u_userId = the (cq_userId creq), u_userName = the (cq_userName creq),
         u_userEmail = the (cq_userEmail creq), u_firstSeen = now1 At_firstSeen,
         u_lastPurchaseAttempt = now1 At_new_lastPurchaseAttempt, u_totalAttempts = 1,
         u_successfulPurchases = 1, u_totalSpent = 999,
         u_lastSuccessfulPurchase = Some (now2 At_lastSuccessfulPurchase),
         u_isPremium = Some True\<rparr>"
    by (simp add: st2 credit_user_present assms(5) paid)
  with tx show ?thesis by simp
qed

theorem create_then_confirm_witness:
  "createPayment (gateway_creates ''pi_1'') (clock_at 100)
     (create_body ''a@b.com'' ''A'' ''u1'') empty_ledger =
   (ledger_created,
    Inr \<lparr>cr_clientSecret = ''pi_1_secret'', cr_paymentIntentId = ''pi_1'', cr_amount = 999,
         cr_currency = ''usd'', cr_userId = ''u1'', cr_userName = ''A'',
         cr_userEmail = ''a@b.com'',
         cr_description = ''Kid Tok Premium - Unlimited Video Access for A'',
         cr_receiptEmail = ''a@b.com'', cr_timestamp = 100\<rparr>)
   \<and> gateway_reports ''succeeded'' 999 ''pi_1'' =
       Inr \<lparr>pi_id = ''pi_1'', pi_client_secret = ''pi_1_secret'', pi_description = [],
            pi_status = ''succeeded'', pi_amount = 999\<rparr>
   \<and> confirmPayment (gateway_reports ''succeeded'' 999) (clock_at 200)
       (confirm_body ''pi_1'' ''u1'') ledger_created =
     (ledger_confirmed,
      Inr \<lparr>fr_success = True, fr_message = ''Payment confirmed successfully'',
           fr_paymentIntentId = ''pi_1'', fr_amount = 999, fr_status = ''succeeded''\<rparr>)
   \<and> map_option t_status (map_of (transactions ledger_confirmed) ''pi_1'') = Some ''completed''
   \<and> map_option t_completedAt (map_of (transactions ledger_confirmed) ''pi_1'')
       = Some (Some 200)
   \<and> map_option u_successfulPurchases (users ledger_confirmed ''u1'') = Some 1
   \<and> map_option u_totalSpent (users ledger_confirmed ''u1'') = Some 999
   \<and> map_option u_isPremium (users ledger_confirmed ''u1'') = Some (Some True)"
proof -
  let ?created = "\<lparr>cr_clientSecret = ''pi_1_secret'', cr_paymentIntentId = ''pi_1'',
         cr_amount = 999,
         cr_currency = ''usd'', cr_userId = ''u1'', cr_userName = ''A'',
         cr_userEmail = ''a@b.com'',
         cr_description = ''Kid Tok Premium - Unlimited Video Access for A'',
         cr_receiptEmail = ''a@b.com'', cr_timestamp = 100\<rparr>"
  let ?intent = "\<lparr>pi_id = ''pi_1'', pi_client_secret = ''pi_1_secret'', pi_description = [],
            pi_status = ''succeeded'', pi_amount = 999\<rparr>"
  have a: "cr_paymentIntentId ?created \<noteq> []" by simp
  have b: "gateway_reports ''succeeded'' 999 (cr_paymentIntentId ?created) = Inr ?intent"
    by (simp add: gateway_reports_def)
  have c: "pi_status ?intent = ''succeeded''" and d: "pi_amount ?intent = cr_amount ?created"
    by simp_all
  have e: "confirmPayment (gateway_reports ''succeeded'' 999) (clock_at 200)
       (confirm_body (cr_paymentIntentId ?created) (cr_userId ?created)) ledger_created =
     (ledger_confirmed,
      Inr \<lparr>fr_success = True, fr_message = ''Payment confirmed successfully'',
           fr_paymentIntentId = ''pi_1'', fr_amount = 999, fr_status = ''succeeded''\<rparr>)"
    using sample_confirmed by simp
  from create_then_confirm [where retrieve = "gateway_reports ''succeeded'' 999",
      OF sample_created a b c d e] sample_created sample_confirmed b
  show ?thesis by (simp add: clock_at_def)
qed

subsection \<open>Requests that create-payment refuses\<close>

text \<open>
  Claim C6. When one of \<^verbatim>\<open>userEmail\<close>, \<^verbatim>\<open>userName\<close>, \<^verbatim>\<open>userId\<close> is absent (or the empty
  string: both are falsy), create-payment answers 400 with the error \<^verbatim>\<open>Missing required
  user information ...\<close>; when the three are present and \<^verbatim>\<open>userEmail\<close> does not match the
  pattern, it answers 400 with \<^verbatim>\<open>Invalid email format\<close>. In both cases the ledger returned
  is the ledger given. The first check comes first: an email that does not match is
  refused with one of the two errors, whatever the other fields are. By
  \<open>emailRegex_shape\<close> the emails that do not match the pattern are those that do not have
  the \<^verbatim>\<open>local@domain.tld\<close> shape.
\<close>

theorem create_validation:
  "(falsy (cq_userEmail req) \<or> falsy (cq_userName req) \<or> falsy (cq_userId req) \<longrightarrow>
      createPayment create now req st =
        (st, Inl \<lparr>e_code = 400,
                  e_error = ''Missing required user information: userEmail, userName, and userId are required'',
                  e_type = None, e_status = None\<rparr>))
   \<and> (\<not> falsy (cq_userEmail req) \<and> \<not> falsy (cq_userName req) \<and> \<not> falsy (cq_userId req)
        \<and> \<not> regex_test emailRegex (the (cq_userEmail req)) \<longrightarrow>
      createPayment create now req st =
        (st, Inl \<lparr>e_code = 400, e_error = ''Invalid email format'',
                  e_type = None, e_status = None\<rparr>))
   \<and> (\<forall>email. cq_userEmail req = Some email \<and> \<not> regex_test emailRegex email \<longrightarrow>
        (\<exists>msg. createPayment create now req st =
           (st, Inl \<lparr>e_code = 400, e_error = msg, e_type = None, e_status = None\<rparr>)))"
  by (auto simp: createPayment_def bad_request_def)

theorem create_validation_witness:
  "falsy (cq_userEmail \<lparr>cq_userEmail = None, cq_userName = Some ''A'', cq_userId = Some ''u1'',
            cq_deviceInfo = None, cq_appVersion = None, cq_purchaseType = None\<rparr>)
   \<and> createPayment (gateway_creates ''pi_1'') (clock_at 100)
        \<lparr>cq_userEmail = None, cq_userName = Some ''A'', cq_userId = Some ''u1'',
         cq_deviceInfo = None, cq_appVersion = None, cq_purchaseType = None\<rparr> ledger_created
      = (ledger_created,
         Inl \<lparr>e_code = 400,
              e_error = ''Missing required user information: userEmail, userName, and userId are required'',
              e_type = None, e_status = None\<rparr>)
   \<and> \<not> falsy (cq_userEmail (create_body ''a@b'' ''A'' ''u1''))
   \<and> \<not> falsy (cq_userName (create_body ''a@b'' ''A'' ''u1''))
   \<and> \<not> falsy (cq_userId (create_body ''a@b'' ''A'' ''u1''))
   \<and> \<not> regex_test emailRegex ''a@b''
   \<and> createPayment (gateway_creates ''pi_1'') (clock_at 100)
        (create_body ''a@b'' ''A'' ''u1'') ledger_created
      = (ledger_created,
         Inl \<lparr>e_code = 400, e_error = ''Invalid email format'',
              e_type = None, e_status = None\<rparr>)"
proof -
  let ?noemail = "\<lparr>cq_userEmail = None, cq_userName = Some ''A'', cq_userId = Some ''u1'',
            cq_deviceInfo = None, cq_appVersion = None, cq_purchaseType = None\<rparr>"
  have a: "falsy (cq_userEmail ?noemail)"
    by (simp add: falsy_def)
  have b: "\<not> falsy (cq_userEmail (create_body ''a@b'' ''A'' ''u1''))"
    "\<not> falsy (cq_userName (create_body ''a@b'' ''A'' ''u1''))"
    "\<not> falsy (cq_userId (create_body ''a@b'' ''A'' ''u1''))"
    by (simp_all add: create_body_def falsy_def)
  have c: "\<not> regex_test emailRegex ''a@b''"
    by (simp add: regex_defs)
  have d: "the (cq_userEmail (create_body ''a@b'' ''A'' ''u1'')) = ''a@b''"
    by (simp add: create_body_def)
  from create_validation [of ?noemail "gateway_creates ''pi_1''" "clock_at 100" ledger_created]
    create_validation [of "create_body ''a@b'' ''A'' ''u1''" "gateway_creates ''pi_1''"
      "clock_at 100" ledger_created] a b c d
  show ?thesis by simp
qed

subsection \<open>Attempts counted by create-payment\<close>

text \<open>
  Claim C4. After any run of the server from the empty ledger (create-payment and
  confirm-payment requests of any users, accepted or refused), a user has a record
  exactly when one of their create-payment requests was accepted, and the record's
  \<^verbatim>\<open>totalAttempts\<close> is the number of their accepted create-payment requests. An accepted
  request of a user who has a record changes, in \<^verbatim>\<open>users\<close>, only that record, and in it
  only \<^verbatim>\<open>lastPurchaseAttempt\<close> and \<^verbatim>\<open>totalAttempts\<close> (one more): \<^verbatim>\<open>successfulPurchases\<close>,
  \<^verbatim>\<open>totalSpent\<close> and \<^verbatim>\<open>isPremium\<close> stay. An accepted request of a user without a record
  adds the record with \<^verbatim>\<open>totalAttempts = 1\<close>, \<^verbatim>\<open>successfulPurchases = 0\<close>,
  \<^verbatim>\<open>totalSpent = 0\<close> and neither \<^verbatim>\<open>isPremium\<close> nor \<^verbatim>\<open>lastSuccessfulPurchase\<close>.
\<close>

theorem create_counts_attempts:
  "(successful_creates uid es empty_ledger = 0 \<longrightarrow> users (run es empty_ledger) uid = None)
   \<and> (0 < successful_creates uid es empty_ledger \<longrightarrow>
        map_option u_totalAttempts (users (run es empty_ledger) uid)
          = Some (int (successful_creates uid es empty_ledger)))
   \<and> (createPayment create now req st = (st', Inr reply) \<longrightarrow>
        (\<forall>u. users st (cr_userId reply) = Some u \<longrightarrow>
           users st' =
             (users st)(cr_userId reply \<mapsto>
                u\<lparr>u_lastPurchaseAttempt := now At_existing_lastPurchaseAttempt,
                  u_totalAttempts := u_totalAttempts u + 1\<rparr>))
        \<and> (users st (cr_userId reply) = None \<longrightarrow>
             users st' =
               (users st)(cr_userId reply \<mapsto>
                  \<lparr>u_userId = cr_userId reply, u_userName = cr_userName reply,
                   u_userEmail = cr_userEmail reply, u_firstSeen = now At_firstSeen,
                   u_lastPurchaseAttempt = now At_new_lastPurchaseAttempt,
                   u_totalAttempts = 1, u_successfulPurchases = 0, u_totalSpent = 0,
                   u_lastSuccessfulPurchase = None, u_isPremium = None\<rparr>)))"
proof -
  have "recorded_attempts (users empty_ledger) uid 0"
    by (simp add: recorded_attempts_def empty_ledger_def)
  from run_attempts [OF this, of es]
  have counted: "recorded_attempts (users (run es empty_ledger)) uid
      (successful_creates uid es empty_ledger)"
    by simp
  have none: "successful_creates uid es empty_ledger = 0 \<longrightarrow>
      users (run es empty_ledger) uid = None"
    using counted by (auto simp: recorded_attempts_def split: option.splits)
  have some: "0 < successful_creates uid es empty_ledger \<longrightarrow>
        map_option u_totalAttempts (users (run es empty_ledger) uid)
          = Some (int (successful_creates uid es empty_ledger))"
    using counted by (auto simp: recorded_attempts_def split: option.splits)
  have step: "createPayment create now req st = (st', Inr reply) \<longrightarrow>
        (\<forall>u. users st (cr_userId reply) = Some u \<longrightarrow>
           users st' =
             (users st)(cr_userId reply \<mapsto>
                u\<lparr>u_lastPurchaseAttempt := now At_existing_lastPurchaseAttempt,
                  u_totalAttempts := u_totalAttempts u + 1\<rparr>))
        \<and> (users st (cr_userId reply) = None \<longrightarrow>
             users st' =
               (users st)(cr_userId reply \<mapsto>
                  \<lparr>u_userId = cr_userId reply, u_userName = cr_userName reply,
                   u_userEmail = cr_userEmail reply, u_firstSeen = now At_firstSeen,
                   u_lastPurchaseAttempt = now At_new_lastPurchaseAttempt,
                   u_totalAttempts = 1, u_successfulPurchases = 0, u_totalSpent = 0,
                   u_lastSuccessfulPurchase = None, u_isPremium = None\<rparr>))"
  proof
    assume "createPayment create now req st = (st', Inr reply)"
    then obtain made where
      users': "users st' = upsert_user now req (users st)"
      and uid: "cr_userId reply = the (cq_userId req)"
      and name: "cr_userName reply = the (cq_userName req)"
      and email: "cr_userEmail reply = the (cq_userEmail req)"
      by (rule createPayment_accepted)
    show "(\<forall>u. users st (cr_userId reply) = Some u \<longrightarrow>
           users st' =
             (users st)(cr_userId reply \<mapsto>
                u\<lparr>u_lastPurchaseAttempt := now At_existing_lastPurchaseAttempt,
                  u_totalAttempts := u_totalAttempts u + 1\<rparr>))
        \<and> (users st (cr_userId reply) = None \<longrightarrow>
             users st' =
               (users st)(cr_userId reply \<mapsto>
                  \<lparr>u_userId = cr_userId reply, u_userName = cr_userName reply,
                   u_userEmail = cr_userEmail reply, u_firstSeen = now At_firstSeen,
                   u_lastPurchaseAttempt = now At_new_lastPurchaseAttempt,
                   u_totalAttempts = 1, u_successfulPurchases = 0, u_totalSpent = 0,
                   u_lastSuccessfulPurchase = None, u_isPremium = None\<rparr>))"
      by (simp add: users' uid name email upsert_user_present upsert_user_absent)
  qed
  from none some step show ?thesis by blast
qed

theorem create_counts_attempts_witness:
  "successful_creates ''u9'' three_creates empty_ledger = 0
   \<and> users (run three_creates empty_ledger) ''u9'' = None
   \<and> successful_creates ''u1'' three_creates empty_ledger = 2
   \<and> map_option u_totalAttempts (users (run three_creates empty_ledger) ''u1'') = Some 2
   \<and> createPayment (gateway_creates ''pi_3'') (clock_at 170)
        (create_body ''a@b.com'' ''A'' ''u1'') ledger_two_users =
      (ledger_three_payments,
       Inr \<lparr>cr_clientSecret = ''pi_3_secret'', cr_paymentIntentId = ''pi_3'', cr_amount = 999,
            cr_currency = ''usd'', cr_userId = ''u1'', cr_userName = ''A'',
            cr_userEmail = ''a@b.com'',
            cr_description = ''Kid Tok Premium - Unlimited Video Access for A'',
            cr_receiptEmail = ''a@b.com'', cr_timestamp = 170\<rparr>)
   \<and> users ledger_two_users ''u1'' =
        Some \<lparr>u_userId = ''u1'', u_userName = ''A'', u_userEmail = ''a@b.com'',
           u_firstSeen = 100, u_lastPurchaseAttempt = 100, u_totalAttempts = 1,
           u_successfulPurchases = 0, u_totalSpent = 0,
           u_lastSuccessfulPurchase = None, u_isPremium = None\<rparr>
   \<and> users ledger_three_payments =
        (users ledger_two_users)(''u1'' \<mapsto>
          \<lparr>u_userId = ''u1'', u_userName = ''A'', u_userEmail = ''a@b.com'',
           u_firstSeen = 100, u_lastPurchaseAttempt = 170, u_totalAttempts = 2,
           u_successfulPurchases = 0, u_totalSpent = 0,
           u_lastSuccessfulPurchase = None, u_isPremium = None\<rparr>)
   \<and> createPayment (gateway_creates ''pi_1'') (clock_at 100)
        (create_body ''a@b.com'' ''A'' ''u1'') empty_ledger =
      (ledger_created,
       Inr \<lparr>cr_clientSecret = ''pi_1_secret'', cr_paymentIntentId = ''pi_1'', cr_amount = 999,
            cr_currency = ''usd'', cr_userId = ''u1'', cr_userName = ''A'',
            cr_userEmail = ''a@b.com'',
            cr_description = ''Kid Tok Premium - Unlimited Video Access for A'',
            cr_receiptEmail = ''a@b.com'', cr_timestamp = 100\<rparr>)
   \<and> users empty_ledger ''u1'' = None
   \<and> users ledger_created =
        (users empty_ledger)(''u1'' \<mapsto>
          \<lparr>u_userId = ''u1'', u_userName = ''A'', u_userEmail = ''a@b.com'',
           u_firstSeen = 100, u_lastPurchaseAttempt = 100, u_totalAttempts = 1,
           u_successfulPurchases = 0, u_totalSpent = 0,
           u_lastSuccessfulPurchase = None, u_isPremium = None\<rparr>)"
proof -
  have count9: "successful_creates ''u9'' three_creates empty_ledger = 0"
    by (simp add: three_creates_def create_body_successful regex_defs
        del: successful_create_of.simps)
  have count1: "successful_creates ''u1'' three_creates empty_ledger = 2"
    by (simp add: three_creates_def create_body_successful regex_defs
        del: successful_create_of.simps)
  have known: "users ledger_two_users ''u1'' =
        Some \<lparr>u_userId = ''u1'', u_userName = ''A'', u_userEmail = ''a@b.com'',
           u_firstSeen = 100, u_lastPurchaseAttempt = 100, u_totalAttempts = 1,
           u_successfulPurchases = 0, u_totalSpent = 0,
           u_lastSuccessfulPurchase = None, u_isPremium = None\<rparr>"
    by (simp add: ledger_two_users_eq)
  have unknown: "users empty_ledger ''u1'' = None"
    by (simp add: empty_ledger_def)
  let ?third = "\<lparr>cr_clientSecret = ''pi_3_secret'', cr_paymentIntentId = ''pi_3'',
            cr_amount = 999, cr_currency = ''usd'', cr_userId = ''u1'', cr_userName = ''A'',
            cr_userEmail = ''a@b.com'',
            cr_description = ''Kid Tok Premium - Unlimited Video Access for A'',
            cr_receiptEmail = ''a@b.com'', cr_timestamp = 170\<rparr>"
  let ?first = "\<lparr>cr_clientSecret = ''pi_1_secret'', cr_paymentIntentId = ''pi_1'',
            cr_amount = 999, cr_currency = ''usd'', cr_userId = ''u1'', cr_userName = ''A'',
            cr_userEmail = ''a@b.com'',
            cr_description = ''Kid Tok Premium - Unlimited Video Access for A'',
            cr_receiptEmail = ''a@b.com'', cr_timestamp = 100\<rparr>"
  note at9 = create_counts_attempts [of "''u9''" three_creates "gateway_creates ''pi_3''"
      "clock_at 170" "create_body ''a@b.com'' ''A'' ''u1''" ledger_two_users
      ledger_three_payments ?third]
  note at1 = create_counts_attempts [of "''u1''" three_creates "gateway_creates ''pi_1''"
      "clock_at 100" "create_body ''a@b.com'' ''A'' ''u1''" empty_ledger ledger_created ?first]
  have none9: "users (run three_creates empty_ledger) ''u9'' = None"
    using at9 [THEN conjunct1] count9 by simp
  have two1: "map_option u_totalAttempts (users (run three_creates empty_ledger) ''u1'') = Some 2"
    using at1 [THEN conjunct2, THEN conjunct1] count1 by simp
  have "\<forall>u. users ledger_two_users ''u1'' = Some u \<longrightarrow>
           users ledger_three_payments =
             (users ledger_two_users)(''u1'' \<mapsto>
                u\<lparr>u_lastPurchaseAttempt := 170, u_totalAttempts := u_totalAttempts u + 1\<rparr>)"
    using at9 [THEN conjunct2, THEN conjunct2, THEN mp, OF sample_third_created, THEN conjunct1]
    by (simp add: clock_at_def)
  with known have again: "users ledger_three_payments =
        (users ledger_two_users)(''u1'' \<mapsto>
          \<lparr>u_userId = ''u1'', u_userName = ''A'', u_userEmail = ''a@b.com'',
           u_firstSeen = 100, u_lastPurchaseAttempt = 170, u_totalAttempts = 2,
           u_successfulPurchases = 0, u_totalSpent = 0,
           u_lastSuccessfulPurchase = None, u_isPremium = None\<rparr>)"
    by simp
  have "users empty_ledger ''u1'' = None \<longrightarrow>
           users ledger_created =
             (users empty_ledger)(''u1'' \<mapsto>
          \<lparr>u_userId = ''u1'', u_userName = ''A'', u_userEmail = ''a@b.com'',
           u_firstSeen = 100, u_lastPurchaseAttempt = 100, u_totalAttempts = 1,
           u_successfulPurchases = 0, u_totalSpent = 0,
           u_lastSuccessfulPurchase = None, u_isPremium = None\<rparr>)"
    using at1 [THEN conjunct2, THEN conjunct2, THEN mp, OF sample_created, THEN conjunct2]
    by (simp add: clock_at_def)
  with unknown have new: "users ledger_created =
             (users empty_ledger)(''u1'' \<mapsto>
          \<lparr>u_userId = ''u1'', u_userName = ''A'', u_userEmail = ''a@b.com'',
           u_firstSeen = 100, u_lastPurchaseAttempt = 100, u_totalAttempts = 1,
           u_successfulPurchases = 0, u_totalSpent = 0,
           u_lastSuccessfulPurchase = None, u_isPremium = None\<rparr>)"
    by blast
  from count9 none9 count1 two1 sample_third_created known again sample_created unknown new
  show ?thesis by blast
qed

subsection \<open>The admin listing\<close>

text \<open>
  Claim C8. Whatever the ledger holds, the admin listing returns the transactions stored
  in \<^verbatim>\<open>transactions\<close>, each once and no other (in particular every transaction that a
  lookup by payment intent id finds), ordered by \<^verbatim>\<open>createdAt\<close> from the newest to the
  oldest; \<^verbatim>\<open>totalRevenue\<close> is the sum of \<^verbatim>\<open>amount\<close> over the stored transactions whose status
  is \<^verbatim>\<open>completed\<close>, and \<^verbatim>\<open>totalTransactions\<close>, \<^verbatim>\<open>completedTransactions\<close>,
  \<^verbatim>\<open>pendingTransactions\<close> and \<^verbatim>\<open>uniqueUsers\<close> are the number of stored transactions, of
  those completed, of those pending, and of distinct \<^verbatim>\<open>userId\<close>s among them. Every
  right-hand side is computed on the entries of the ledger's \<^verbatim>\<open>transactions\<close> themselves, in
  the order they are stored. On the ledger \<open>ledger_mixed\<close> (stored \<open>pi_1\<close> pending,
  \<open>pi_2\<close> completed, \<open>pi_3\<close> pending) the listing is \<open>pi_3\<close>, \<open>pi_2\<close>, \<open>pi_1\<close> with
  revenue 999, three transactions, one completed, two pending and two users.
\<close>

theorem listAllTransactions_summary:
  "mset (ar_transactions (listAllTransactions st)) = mset (map snd (transactions st))
   \<and> (\<forall>p t. map_of (transactions st) p = Some t \<longrightarrow>
         t \<in> set (ar_transactions (listAllTransactions st)))
   \<and> sorted_wrt (\<lambda>a b. t_createdAt b \<le> t_createdAt a)
        (ar_transactions (listAllTransactions st))
   \<and> ar_totalRevenue (listAllTransactions st) =
        sum_list (map t_amount
          (filter (\<lambda>t. t_status t = ''completed'') (map snd (transactions st))))
   \<and> ar_totalTransactions (listAllTransactions st) = length (transactions st)
   \<and> ar_completedTransactions (listAllTransactions st) =
        length (filter (\<lambda>t. t_status t = ''completed'') (map snd (transactions st)))
   \<and> ar_pendingTransactions (listAllTransactions st) =
        length (filter (\<lambda>t. t_status t = ''pending'') (map snd (transactions st)))
   \<and> ar_uniqueUsers (listAllTransactions st) =
        card (t_userId ` snd ` set (transactions st))"
proof -
  have stored: "\<forall>p t. map_of (transactions st) p = Some t \<longrightarrow>
         t \<in> set (ar_transactions (listAllTransactions st))"
  proof (intro allI impI)
    fix p t
    assume "map_of (transactions st) p = Some t"
    then have "(p, t) \<in> set (transactions st)"
      by (rule map_of_SomeD)
    then have "t \<in> snd ` set (transactions st)"
      by force
    then show "t \<in> set (ar_transactions (listAllTransactions st))"
      by (simp add: listAllTransactions_def Let_def set_js_sort transaction_values_def)
  qed
  have rest: "mset (ar_transactions (listAllTransactions st)) = mset (map snd (transactions st))
   \<and> sorted_wrt (\<lambda>a b. t_createdAt b \<le> t_createdAt a)
        (ar_transactions (listAllTransactions st))
   \<and> ar_totalRevenue (listAllTransactions st) =
        sum_list (map t_amount
          (filter (\<lambda>t. t_status t = ''completed'') (map snd (transactions st))))
   \<and> ar_totalTransactions (listAllTransactions st) = length (transactions st)
   \<and> ar_completedTransactions (listAllTransactions st) =
        length (filter (\<lambda>t. t_status t = ''completed'') (map snd (transactions st)))
   \<and> ar_pendingTransactions (listAllTransactions st) =
        length (filter (\<lambda>t. t_status t = ''pending'') (map snd (transactions st)))
   \<and> ar_uniqueUsers (listAllTransactions st) =
        card (t_userId ` snd ` set (transactions st))"
    by (simp add: listAllTransactions_def Let_def mset_js_sort js_sort_newest_first
        filter_js_sort length_js_sort reduce_sum sum_list_js_sort set_js_sort
        length_remdups_card_conv transaction_values_def)
  from stored rest show ?thesis by blast
qed

theorem listAllTransactions_summary_witness:
  "map t_paymentIntentId (map snd (transactions ledger_mixed)) = [''pi_1'', ''pi_2'', ''pi_3'']
   \<and> map t_status (map snd (transactions ledger_mixed))
       = [''pending'', ''completed'', ''pending'']
   \<and> map_option t_paymentIntentId (map_of (transactions ledger_mixed) ''pi_2'') = Some ''pi_2''
   \<and> ''pi_2'' \<in> t_paymentIntentId ` set (ar_transactions (listAllTransactions ledger_mixed))
   \<and> map t_paymentIntentId (ar_transactions (listAllTransactions ledger_mixed))
       = [''pi_3'', ''pi_2'', ''pi_1'']
   \<and> ar_totalRevenue (listAllTransactions ledger_mixed) = 999
   \<and> ar_totalTransactions (listAllTransactions ledger_mixed) = 3
   \<and> ar_completedTransactions (listAllTransactions ledger_mixed) = 1
   \<and> ar_pendingTransactions (listAllTransactions ledger_mixed) = 2
   \<and> ar_uniqueUsers (listAllTransactions ledger_mixed) = 2"
proof -
  let ?t2 = "\<lparr>t_paymentIntentId = ''pi_2'', t_userId = ''u2'', t_userName = ''B'',
           t_userEmail = ''c@d.org'', t_amount = 999, t_currency = ''usd'',
           t_status = ''completed'', t_createdAt = 150, t_deviceInfo = None,
           t_appVersion = None, t_purchaseType = ''unlimited_video_selection'',
           t_completedAt = Some 200\<rparr>"
  note summary = listAllTransactions_summary [of ledger_mixed]
  have stored:
    "map t_paymentIntentId (map snd (transactions ledger_mixed)) = [''pi_1'', ''pi_2'', ''pi_3'']"
    "map t_status (map snd (transactions ledger_mixed)) = [''pending'', ''completed'', ''pending'']"
    by (simp_all add: ledger_mixed_eq)
  have second: "map_of (transactions ledger_mixed) ''pi_2'' = Some ?t2"
    by (simp add: ledger_mixed_eq)
  from summary [THEN conjunct2, THEN conjunct1, THEN spec, THEN spec, THEN mp, OF second]
  have listed: "''pi_2'' \<in> t_paymentIntentId ` set (ar_transactions (listAllTransactions ledger_mixed))"
    by force
  have users: "t_userId ` snd ` set (transactions ledger_mixed) = {''u1'', ''u2''}"
    by (auto simp: ledger_mixed_eq)
  from summary have totals:
    "ar_totalRevenue (listAllTransactions ledger_mixed) = 999"
    "ar_totalTransactions (listAllTransactions ledger_mixed) = 3"
    "ar_completedTransactions (listAllTransactions ledger_mixed) = 1"
    "ar_pendingTransactions (listAllTransactions ledger_mixed) = 2"
    by (simp_all add: ledger_mixed_eq)
  from summary users have distinct_users: "ar_uniqueUsers (listAllTransactions ledger_mixed) = 2"
    by simp
  have order: "map t_paymentIntentId (ar_transactions (listAllTransactions ledger_mixed))
       = [''pi_3'', ''pi_2'', ''pi_1'']"
    by (simp add: listAllTransactions_def ledger_mixed_eq transaction_values_def js_sort_def
        by_date_descending_def)
  from second have "map_option t_paymentIntentId (map_of (transactions ledger_mixed) ''pi_2'')
      = Some ''pi_2''"
    by simp
  with stored listed order totals distinct_users show ?thesis by blast
qed

subsection \<open>The user query\<close>

text \<open>
  Claim C7. For a user id without a record the query answers 404 \<^verbatim>\<open>User not found\<close>. For a
  user id with a record it answers with that record, with the stored transactions whose
  \<^verbatim>\<open>userId\<close> is this one (each once, no other), ordered by \<^verbatim>\<open>createdAt\<close> from the newest
  to the oldest, and with a summary: the number of these transactions, the number of
  them whose status is \<^verbatim>\<open>completed\<close>, the record's \<^verbatim>\<open>totalSpent\<close>, and \<^verbatim>\<open>isPremium\<close>, which
  is true only when the record's \<^verbatim>\<open>isPremium\<close> is set and true. The stored transactions
  are the entries of the ledger's \<^verbatim>\<open>transactions\<close> themselves.
\<close>

theorem getUser_reply:
  "(users st uid = None \<longrightarrow>
      getUser uid st =
        Inl \<lparr>e_code = 404, e_error = ''User not found'', e_type = None, e_status = None\<rparr>)
   \<and> (\<forall>u. users st uid = Some u \<longrightarrow>
        (\<exists>r. getUser uid st = Inr r
           \<and> ur_user r = u
           \<and> mset (ur_transactions r) =
               filter_mset (\<lambda>t. t_userId t = uid) (mset (map snd (transactions st)))
           \<and> sorted_wrt (\<lambda>a b. t_createdAt b \<le> t_createdAt a) (ur_transactions r)
           \<and> ur_totalTransactions r =
               length (filter (\<lambda>t. t_userId t = uid) (map snd (transactions st)))
           \<and> ur_successfulTransactions r =
               length (filter (\<lambda>t. t_userId t = uid \<and> t_status t = ''completed'')
                 (map snd (transactions st)))
           \<and> ur_totalSpent r = u_totalSpent u
           \<and> ur_isPremium r = (u_isPremium u = Some True)))"
  by (auto simp: getUser_def Let_def mset_js_sort js_sort_newest_first filter_js_sort
      length_js_sort conj_commute transaction_values_def split: option.splits)

theorem getUser_reply_witness:
  "users ledger_three_payments ''u9'' = None
   \<and> getUser ''u9'' ledger_three_payments =
       Inl \<lparr>e_code = 404, e_error = ''User not found'', e_type = None, e_status = None\<rparr>
   \<and> map_option u_userName (users ledger_three_payments ''u1'') = Some ''A''
   \<and> (\<exists>r. getUser ''u1'' ledger_three_payments = Inr r
         \<and> u_userName (ur_user r) = ''A''
         \<and> mset (ur_transactions r) =
             filter_mset (\<lambda>t. t_userId t = ''u1'')
               (mset (map snd (transactions ledger_three_payments)))
         \<and> sorted_wrt (\<lambda>a b. t_createdAt b \<le> t_createdAt a) (ur_transactions r)
         \<and> ur_totalTransactions r = 2
         \<and> ur_successfulTransactions r = 0
         \<and> ur_totalSpent r = 0
         \<and> ur_isPremium r = False)
   \<and> map t_paymentIntentId
        (ur_transactions (projr (getUser ''u1'' ledger_three_payments))) = [''pi_3'', ''pi_1'']"
proof -
  have unknown: "users ledger_three_payments ''u9'' = None"
    by (simp add: ledger_three_payments_eq)
  let ?u = "\<lparr>u_userId = ''u1'', u_userName = ''A'', u_userEmail = ''a@b.com'',
           u_firstSeen = 100, u_lastPurchaseAttempt = 170, u_totalAttempts = 2,
           u_successfulPurchases = 0, u_totalSpent = 0,
           u_lastSuccessfulPurchase = None, u_isPremium = None\<rparr>"
  have known: "users ledger_three_payments ''u1'' = Some ?u"
    by (simp add: ledger_three_payments_eq)
  have counts:
    "length (filter (\<lambda>t. t_userId t = ''u1'') (map snd (transactions ledger_three_payments)))
       = 2"
    "length (filter (\<lambda>t. t_userId t = ''u1'' \<and> t_status t = ''completed'')
       (map snd (transactions ledger_three_payments))) = 0"
    by (simp_all add: ledger_three_payments_eq)
  have order: "map t_paymentIntentId
        (ur_transactions (projr (getUser ''u1'' ledger_three_payments))) = [''pi_3'', ''pi_1'']"
    by (simp add: getUser_def ledger_three_payments_eq transaction_values_def js_sort_def
        by_date_descending_def)
  from getUser_reply [of ledger_three_payments "''u9''", THEN conjunct1] unknown
  have notfound: "getUser ''u9'' ledger_three_payments =
       Inl \<lparr>e_code = 404, e_error = ''User not found'', e_type = None, e_status = None\<rparr>"
    by blast
  from getUser_reply [of ledger_three_payments "''u1''", THEN conjunct2, THEN spec,
      THEN mp, OF known] counts
  have found: "\<exists>r. getUser ''u1'' ledger_three_payments = Inr r
         \<and> u_userName (ur_user r) = ''A''
         \<and> mset (ur_transactions r) =
             filter_mset (\<lambda>t. t_userId t = ''u1'')
               (mset (map snd (transactions ledger_three_payments)))
         \<and> sorted_wrt (\<lambda>a b. t_createdAt b \<le> t_createdAt a) (ur_transactions r)
         \<and> ur_totalTransactions r = 2
         \<and> ur_successfulTransactions r = 0
         \<and> ur_totalSpent r = 0
         \<and> ur_isPremium r = False"
    by auto
  from known have "map_option u_userName (users ledger_three_payments ''u1'') = Some ''A''"
    by simp
  with unknown notfound found order show ?thesis by blast
qed

subsection \<open>The status of a transaction never goes back\<close>

text \<open>
  Claim C5, as the specification states it, fails. The ledger reached by creating and
  confirming \<open>pi_1\<close> holds it with status \<^verbatim>\<open>completed\<close>. A create-payment request
  for which the gateway answers with the id \<open>pi_1\<close> again is accepted, and
  \<^verbatim>\<open>transactions.set\<close> puts a new transaction with status \<^verbatim>\<open>pending\<close> in the place of the
  completed one: the handler does not look whether the id is stored.
\<close>

theorem status_reset_counterexample:
  "map_option t_status (map_of (transactions (run create_and_confirm empty_ledger)) ''pi_1'')
     = Some ''completed''
   \<and> isl (snd (createPayment (gateway_creates ''pi_1'') (clock_at 300)
                 (create_body ''a@b.com'' ''A'' ''u1'') (run create_and_confirm empty_ledger)))
       = False
   \<and> map_option t_status
        (map_of (transactions
           (apply_event (Create (gateway_creates ''pi_1'') (clock_at 300)
                           (create_body ''a@b.com'' ''A'' ''u1''))
              (run create_and_confirm empty_ledger))) ''pi_1'')
       = Some ''pending''"
proof -
  have "map_option t_status
        (map_of (transactions
           (apply_event (Create (gateway_creates ''pi_1'') (clock_at 300)
                           (create_body ''a@b.com'' ''A'' ''u1''))
              (run create_and_confirm empty_ledger))) ''pi_1'')
       = Some ''pending''"
    by (simp add: run_create_and_confirm createPayment_def sample_defs regex_defs update_conv')
  moreover have "isl (snd (createPayment (gateway_creates ''pi_1'') (clock_at 300)
                 (create_body ''a@b.com'' ''A'' ''u1'') (run create_and_confirm empty_ledger)))
       = False"
    by (simp add: create_body_accepted regex_defs)
  moreover have
    "map_option t_status (map_of (transactions (run create_and_confirm empty_ledger)) ''pi_1'')
     = Some ''completed''"
    by (simp add: run_create_and_confirm ledger_confirmed_eq)
  ultimately show ?thesis by blast
qed

text \<open>
  Claim C5, amended. Let the ledger be reached from the empty ledger by any run of
  create-payment and confirm-payment requests, and let the next request be a
  confirm-payment request, or a create-payment request that is refused, or one for which
  the id the gateway assigns is not the id of a stored transaction (\<open>fresh_id\<close>; the
  specification's data model calls the id gateway-assigned and unique). Then the status
  of every stored transaction is \<^verbatim>\<open>pending\<close> or \<^verbatim>\<open>completed\<close>; after the request the
  transaction is still stored, its status is again one of the two, and if it was
  \<^verbatim>\<open>completed\<close> it is \<^verbatim>\<open>completed\<close>.
\<close>

theorem status_monotonic:
  assumes "fresh_id e (run es empty_ledger)"
    and "map_of (transactions (run es empty_ledger)) p = Some t"
  shows "valid_status (t_status t)
         \<and> (\<exists>t'. map_of (transactions (apply_event e (run es empty_ledger))) p = Some t'
               \<and> valid_status (t_status t')
               \<and> (t_status t = ''completed'' \<longrightarrow> t_status t' = ''completed''))"
proof -
  have start: "\<forall>p t. map_of (transactions empty_ledger) p = Some t \<longrightarrow> valid_status (t_status t)"
    by (simp add: empty_ledger_def)
  have before: "\<forall>p t. map_of (transactions (run es empty_ledger)) p = Some t
      \<longrightarrow> valid_status (t_status t)"
    by (rule run_valid_status [OF start])
  have after: "\<forall>p t. map_of (transactions (apply_event e (run es empty_ledger))) p = Some t
      \<longrightarrow> valid_status (t_status t)"
    by (rule apply_event_valid_status [OF before])
  from apply_event_keeps_completed [OF assms] obtain t' where
    "map_of (transactions (apply_event e (run es empty_ledger))) p = Some t'"
    "t_status t = ''completed'' \<longrightarrow> t_status t' = ''completed''"
    by blast
  with before after assms(2) show ?thesis by blast
qed

theorem status_monotonic_witness:
  "fresh_id (Create (gateway_creates ''pi_2'') (clock_at 150) (create_body ''c@d.org'' ''B'' ''u2''))
     (run create_and_confirm empty_ledger)
   \<and> map_option t_status (map_of (transactions (run create_and_confirm empty_ledger)) ''pi_1'')
       = Some ''completed''
   \<and> valid_status ''completed''
   \<and> map_option t_status
        (map_of (transactions
           (apply_event
              (Create (gateway_creates ''pi_2'') (clock_at 150) (create_body ''c@d.org'' ''B'' ''u2''))
              (run create_and_confirm empty_ledger))) ''pi_1'')
       = Some ''completed''"
proof -
  let ?e = "Create (gateway_creates ''pi_2'') (clock_at 150) (create_body ''c@d.org'' ''B'' ''u2'')"
  let ?t = "\<lparr>t_paymentIntentId = ''pi_1'', t_userId = ''u1'', t_userName = ''A'',
           t_userEmail = ''a@b.com'', t_amount = 999, t_currency = ''usd'',
           t_status = ''completed'', t_createdAt = 100, t_deviceInfo = None,
           t_appVersion = None, t_purchaseType = ''unlimited_video_selection'',
           t_completedAt = Some 200\<rparr>"
  have fresh: "fresh_id ?e (run create_and_confirm empty_ledger)"
    by (simp add: run_create_and_confirm create_body_accepted regex_defs ledger_confirmed_eq)
  have stored: "map_of (transactions (run create_and_confirm empty_ledger)) ''pi_1'' = Some ?t"
    by (simp add: run_create_and_confirm ledger_confirmed_eq)
  from status_monotonic [OF fresh stored] have
    "valid_status ''completed''"
    "map_option t_status
        (map_of (transactions (apply_event ?e (run create_and_confirm empty_ledger))) ''pi_1'')
       = Some ''completed''"
    by auto
  with fresh stored show ?thesis by simp
qed

end
